theory Spec2Isabelle
  imports Complex_Main "HOL-Library.Char_ord" "HOL-Library.List_Lexorder"
    "HOL-Library.Product_Lexorder" "HOL-Library.Log_Nat"
begin

section \<open>Data model\<close>

text \<open>
  A pandas DataFrame of the catalogue is a list of column names and a list of rows. A row
  carries one cell for each column the pipeline reads or writes; a column that is absent
  from \<open>columns\<close> holds its default (missing, False, 0) in every row. Text cells are
  strings or NaN (\<open>None\<close>); strings are lists of 8-bit characters. The cell of
  \<open>date_added\<close> is a string or NaN before parsing and a timestamp (nanoseconds since the
  epoch) or NaT after; the cell of \<open>release_year\<close> is a number, a string or NaN. Years,
  decades and ages are rationals, on which the float64 arithmetic of the source is exact
  at the sizes of calendar years; the value of a duration is a float64 as \<open>astype(float)\<close>
  rounds it, finite or infinite.
\<close>

datatype date_cell = DateStr string | DateNaN | Timestamp int | NaT

datatype year_cell = YearNum rat | YearStr string | YearNaN

datatype number = Finite rat | Infinity

record row =
  show_id :: "string option"
  type :: "string option"
  title :: "string option"
  director :: "string option"
  cast :: "string option"
  country :: "string option"
  date_added :: date_cell
  release_year :: year_cell
  rating :: "string option"
  duration :: "string option"
  listed_in :: "string option"
  description :: "string option"
  other_columns :: "string option list"
  date_added_year :: "int option"
  date_added_month :: "int option"
  date_added_day_of_week :: "string option"
  decade :: "rat option"
  duration_value :: "number option"
  duration_unit :: "string option"
  is_movie :: bool
  is_tv_show :: bool
  cast_count :: "nat option"
  director_count :: "nat option"
  country_count :: "nat option"
  listed_in_count :: "nat option"
  content_age_when_added :: "rat option"
  description_length :: "nat option"
  description_word_count :: "nat option"
  rating_category :: "string option"
  primary_country :: "string option"
  is_international :: bool
  primary_genre :: "string option"
  genre_diversity :: "nat option"

record frame =
  columns :: "string list"
  rows :: "row list"

text \<open>Exceptions that the modelled code can raise.\<close>

datatype exn = KeyError | TypeError | AttributeError

text \<open>
  The library calls whose results depend on pandas itself are parameters of the model:
  \<open>to_datetime ctx s\<close> is the entry of \<open>pd.to_datetime(column, errors='coerce')\<close> for the
  string \<open>s\<close> of the column \<open>ctx\<close> (pandas may infer one format for the whole column),
  \<open>to_numeric s\<close> is \<open>pd.to_numeric\<close> on one string, \<open>str_timestamp\<close> is \<open>astype(str)\<close>
  on a timestamp, and \<open>dt_year\<close>, \<open>dt_month\<close>, \<open>dt_day_name\<close> are the \<open>.dt\<close> accessors.

  Three more parameters stand for what differs between versions of pandas and what the
  cells of a column do not determine:
  \<^item> \<open>str_accessor_raises cells\<close>: whether \<open>.str\<close> raises AttributeError on a column with
    these cells. Up to pandas 2.2 \<open>replace\<close> stores a text column that it leaves entirely
    NaN as float64, and \<open>.str\<close> refuses a float64 column; pandas 3 keeps the column as text.
  \<^item> \<open>setitem_nan_raises cells\<close>: whether \<open>df.loc[mask, column] = np.nan\<close> raises
    TypeError on a column with these cells when the mask selects a row. pandas 3 refuses to
    write NaN into an int64 column; earlier versions turn the column into float64.
  \<^item> \<open>quicksort_rank rows r\<close>: where the unstable sort on one key puts the row \<open>r\<close> among
    the rows of \<open>rows\<close> that have its key.
\<close>

record pandas =
  to_datetime :: "date_cell list \<Rightarrow> string \<Rightarrow> int option"
  to_numeric :: "string \<Rightarrow> rat option"
  str_timestamp :: "int \<Rightarrow> string"
  dt_year :: "int \<Rightarrow> int"
  dt_month :: "int \<Rightarrow> int"
  dt_day_name :: "int \<Rightarrow> string"
  str_accessor_raises :: "string option list \<Rightarrow> bool"
  setitem_nan_raises :: "year_cell list \<Rightarrow> bool"
  quicksort_rank :: "row list \<Rightarrow> row \<Rightarrow> nat"

subsection \<open>Frames\<close>

text \<open>\<open>df.empty\<close>: an axis of the frame has length 0.\<close>

definition empty :: "frame \<Rightarrow> bool" where
  "empty df = (rows df = [] \<or> columns df = [])"

text \<open>\<open>df[c] = ...\<close>: the column is computed for every row and added when it is new.\<close>

definition assign :: "string \<Rightarrow> (row \<Rightarrow> row) \<Rightarrow> frame \<Rightarrow> frame" where
  "assign c f df =
     df\<lparr>columns := (if c \<in> set (columns df) then columns df else columns df @ [c]),
        rows := map f (rows df)\<rparr>"

text \<open>A \<open>for\<close> loop whose body can raise: the first exception ends the loop.\<close>

fun fold_exn :: "('a \<Rightarrow> 'b \<Rightarrow> exn + 'b) \<Rightarrow> 'a list \<Rightarrow> 'b \<Rightarrow> exn + 'b" where
  "fold_exn f [] s = Inr s"
| "fold_exn f (x # xs) s = (case f x s of Inl e \<Rightarrow> Inl e | Inr s' \<Rightarrow> fold_exn f xs s')"

text \<open>\<open>df.drop_duplicates()\<close> keeps the first of every group of equal rows.\<close>

definition drop_duplicates :: "frame \<Rightarrow> frame" where
  "drop_duplicates df = df\<lparr>rows := rev (remdups (rev (rows df)))\<rparr>"

section \<open>Utilities: validation (utils.py)\<close>

definition validar_dados :: "frame option \<Rightarrow> bool" where
  "validar_dados data =
     (case data of
        None \<Rightarrow> False
      | Some df \<Rightarrow> if empty df then False else True)"

definition colunas_obrigatorias :: "string list" where
  "colunas_obrigatorias =
     [''show_id'', ''type'', ''title'', ''director'', ''cast'', ''country'',
      ''date_added'', ''release_year'', ''rating'', ''duration'', ''listed_in'',
      ''description'']"

definition validar_dados_netflix :: "frame \<Rightarrow> bool" where
  "validar_dados_netflix df =
     (let colunas_ausentes = filter (\<lambda>col. col \<notin> set (columns df)) colunas_obrigatorias
      in if colunas_ausentes \<noteq> [] then False else True)"

section \<open>Extractor (extract.py)\<close>

text \<open>
  The file as the extractor sees it: whether the path exists, and what
  \<open>pd.read_csv\<close> does under each encoding: it returns a frame, raises
  UnicodeDecodeError, or raises another exception.
\<close>

datatype read_result = Parsed frame | UnicodeDecodeError | OtherError

record csv_file =
  exists :: bool
  read_utf8 :: read_result
  read_latin1 :: read_result

definition extract_netflix_data :: "csv_file \<Rightarrow> frame option" where
  "extract_netflix_data file_path =
     (if \<not> exists file_path then None
      else case read_utf8 file_path of
        Parsed df \<Rightarrow>
          if \<not> validar_dados (Some df) then None
          else if \<not> validar_dados_netflix df then None
          else Some df
      | UnicodeDecodeError \<Rightarrow>
          (case read_latin1 file_path of
             Parsed df \<Rightarrow> Some df
           | UnicodeDecodeError \<Rightarrow> None
           | OtherError \<Rightarrow> None)
      | OtherError \<Rightarrow> None)"

section \<open>String operations of the \<open>.str\<close> accessor\<close>

text \<open>Python's \<open>str.isspace\<close> on the characters below 256.\<close>

definition isspace :: "char \<Rightarrow> bool" where
  "isspace c = (of_char c \<in> {9, 10, 11, 12, 13, 28, 29, 30, 31, 32, 133, 160 :: nat})"

definition strip :: "string \<Rightarrow> string" where
  "strip s = rev (dropWhile isspace (rev (dropWhile isspace s)))"

text \<open>\<open>str.split\<close>: the pieces between the separators, at least one piece.\<close>

fun split_where :: "(char \<Rightarrow> bool) \<Rightarrow> string \<Rightarrow> string list" where
  "split_where p [] = [[]]"
| "split_where p (x # xs) =
     (if p x then [] # split_where p xs
      else (case split_where p xs of
              [] \<Rightarrow> [[x]]
            | w # ws \<Rightarrow> (x # w) # ws))"

definition split_comma :: "string \<Rightarrow> string list" where
  "split_comma s = split_where (\<lambda>c. c = CHR '','') s"

text \<open>\<open>str.split()\<close> without a separator: the non-empty runs between whitespace.\<close>

definition split_whitespace :: "string \<Rightarrow> string list" where
  "split_whitespace s = filter (\<lambda>w. w \<noteq> []) (split_where isspace s)"

text \<open>\<open>.str[0]\<close> on a column of lists: the first element, NaN on an empty list.\<close>

definition str_get0 :: "'a list \<Rightarrow> 'a option" where
  "str_get0 xs = (case xs of [] \<Rightarrow> None | x # _ \<Rightarrow> Some x)"

definition count_comma :: "string \<Rightarrow> nat" where
  "count_comma s = length (filter (\<lambda>c. c = CHR '','') s)"

text \<open>\<open>str.contains(',', na=False)\<close>.\<close>

definition contains_comma :: "string option \<Rightarrow> bool" where
  "contains_comma v = (case v of None \<Rightarrow> False | Some s \<Rightarrow> CHR '','' \<in> set s)"

text \<open>
  \<open>astype(float)\<close> on a string of decimal digits is Python's \<open>float\<close>: the float64
  nearest to the number, ties to the even mantissa, and infinity from \<open>2^1024 - 2^970\<close> on.
  A float64 has 53 bits of mantissa; \<open>floorlog 2 n\<close> is the number of bits of \<open>n\<close>.
\<close>

definition float64_of_nat :: "nat \<Rightarrow> number" where
  "float64_of_nat n =
     (let bits = floorlog 2 n
      in if bits \<le> 53 then Finite (of_nat n)
         else
           (let e = bits - 53;
                q = n div 2 ^ e;
                rest = n mod 2 ^ e;
                half = 2 ^ (e - 1);
                q' = (if half < rest \<or> (rest = half \<and> odd q) then q + 1 else q)
            in if 2 ^ 1024 \<le> q' * 2 ^ e then Infinity else Finite (of_nat (q' * 2 ^ e))))"

text \<open>
  \<open>str.extract(r'(\d+)')\<close> followed by \<open>astype(float)\<close>: the first maximal run of
  decimal digits, read as a number. Below 256 the decimal digits are 0 to 9.
\<close>

definition isdigit :: "char \<Rightarrow> bool" where
  "isdigit c = (48 \<le> (of_char c :: nat) \<and> (of_char c :: nat) \<le> 57)"

definition digits_value :: "string \<Rightarrow> nat" where
  "digits_value ds = foldl (\<lambda>n c. 10 * n + (of_char c - 48)) 0 ds"

definition extract_digits :: "string \<Rightarrow> number option" where
  "extract_digits s =
     (let ds = takeWhile isdigit (dropWhile (\<lambda>c. \<not> isdigit c) s)
      in if ds = [] then None else Some (float64_of_nat (digits_value ds)))"

text \<open>
  \<open>str.extract(r'(min|Season|Seasons)$')\<close>. Without the MULTILINE flag \<open>$\<close> matches at
  the end of the string and just before a newline that ends the string.
\<close>

definition ends_with :: "string \<Rightarrow> string \<Rightarrow> bool" where
  "ends_with tok s = (length tok \<le> length s \<and> drop (length s - length tok) s = tok)"

definition matches_at_dollar :: "string \<Rightarrow> string \<Rightarrow> bool" where
  "matches_at_dollar tok s = (ends_with tok s \<or> ends_with (tok @ [CHR 0x0A]) s)"

definition extract_unit :: "string \<Rightarrow> string option" where
  "extract_unit s =
     (if matches_at_dollar ''min'' s then Some ''min''
      else if matches_at_dollar ''Season'' s then Some ''Season''
      else if matches_at_dollar ''Seasons'' s then Some ''Seasons''
      else None)"

text \<open>\<open>astype(str)\<close> on one cell.\<close>

definition astype_str :: "string option \<Rightarrow> string" where
  "astype_str v = (case v of None \<Rightarrow> ''nan'' | Some s \<Rightarrow> s)"

definition astype_str_date :: "pandas \<Rightarrow> date_cell \<Rightarrow> string" where
  "astype_str_date pd c =
     (case c of
        DateStr s \<Rightarrow> s
      | DateNaN \<Rightarrow> ''nan''
      | Timestamp t \<Rightarrow> str_timestamp pd t
      | NaT \<Rightarrow> ''NaT'')"

text \<open>\<open>Series.replace(tokens, np.nan)\<close> on one cell.\<close>

definition replace_nan :: "string list \<Rightarrow> string option \<Rightarrow> string option" where
  "replace_nan tokens v =
     (case v of None \<Rightarrow> None | Some s \<Rightarrow> if s \<in> set tokens then None else Some s)"

definition replace_nan_date :: "string list \<Rightarrow> date_cell \<Rightarrow> date_cell" where
  "replace_nan_date tokens c =
     (case c of DateStr s \<Rightarrow> if s \<in> set tokens then DateNaN else DateStr s | _ \<Rightarrow> c)"

text \<open>Access to a text column by its name, for the loops over column names.\<close>

definition get_text :: "string \<Rightarrow> row \<Rightarrow> string option" where
  "get_text col r =
     (if col = ''title'' then title r
      else if col = ''director'' then director r
      else if col = ''cast'' then cast r
      else if col = ''country'' then country r
      else if col = ''rating'' then rating r
      else if col = ''listed_in'' then listed_in r
      else if col = ''description'' then description r
      else None)"

definition set_text :: "string \<Rightarrow> string option \<Rightarrow> row \<Rightarrow> row" where
  "set_text col v r =
     (if col = ''title'' then r\<lparr>title := v\<rparr>
      else if col = ''director'' then r\<lparr>director := v\<rparr>
      else if col = ''cast'' then r\<lparr>cast := v\<rparr>
      else if col = ''country'' then r\<lparr>country := v\<rparr>
      else if col = ''rating'' then r\<lparr>rating := v\<rparr>
      else if col = ''listed_in'' then r\<lparr>listed_in := v\<rparr>
      else if col = ''description'' then r\<lparr>description := v\<rparr>
      else r)"

definition set_count :: "string \<Rightarrow> nat option \<Rightarrow> row \<Rightarrow> row" where
  "set_count col v r =
     (if col = ''cast'' then r\<lparr>cast_count := v\<rparr>
      else if col = ''director'' then r\<lparr>director_count := v\<rparr>
      else if col = ''country'' then r\<lparr>country_count := v\<rparr>
      else if col = ''listed_in'' then r\<lparr>listed_in_count := v\<rparr>
      else r)"

section \<open>Transformer (transform.py)\<close>

subsection \<open>Step 1: basic cleaning\<close>

definition critical_columns :: "string list" where
  "critical_columns = [''show_id'', ''title'', ''type'']"

text \<open>A row that \<open>dropna(subset=critical_columns)\<close> removes.\<close>

definition isna_critical :: "row \<Rightarrow> bool" where
  "isna_critical r = (show_id r = None \<or> title r = None \<or> type r = None)"

text \<open>\<open>dropna\<close> raises KeyError when a column of the subset is not in the frame.\<close>

definition clean_basic_data :: "frame \<Rightarrow> exn + frame" where
  "clean_basic_data df0 =
     (let df = drop_duplicates df0
      in if \<not> set critical_columns \<subseteq> set (columns df) then Inl KeyError
         else Inr (df\<lparr>rows := filter (\<lambda>r. \<not> isna_critical r) (rows df)\<rparr>))"

subsection \<open>Step 2: dates\<close>

definition to_datetime_cell :: "pandas \<Rightarrow> date_cell list \<Rightarrow> date_cell \<Rightarrow> date_cell" where
  "to_datetime_cell pd ctx c =
     (case c of
        DateStr s \<Rightarrow> (case to_datetime pd ctx s of None \<Rightarrow> NaT | Some t \<Rightarrow> Timestamp t)
      | DateNaN \<Rightarrow> NaT
      | Timestamp t \<Rightarrow> Timestamp t
      | NaT \<Rightarrow> NaT)"

text \<open>A \<open>.dt\<close> accessor on one cell of a datetime column.\<close>

definition dt_accessor :: "(int \<Rightarrow> 'a) \<Rightarrow> date_cell \<Rightarrow> 'a option" where
  "dt_accessor f c = (case c of Timestamp t \<Rightarrow> Some (f t) | _ \<Rightarrow> None)"

definition to_numeric_cell :: "pandas \<Rightarrow> year_cell \<Rightarrow> year_cell" where
  "to_numeric_cell pd c =
     (case c of
        YearNum y \<Rightarrow> YearNum y
      | YearStr s \<Rightarrow> (case to_numeric pd s of None \<Rightarrow> YearNaN | Some y \<Rightarrow> YearNum y)
      | YearNaN \<Rightarrow> YearNaN)"

text \<open>The mask \<open>(release_year < 1900) | (release_year > current_year + 2)\<close>.\<close>

definition unrealistic_year :: "int \<Rightarrow> year_cell \<Rightarrow> bool" where
  "unrealistic_year current_year c =
     (case c of YearNum y \<Rightarrow> y < 1900 \<or> y > of_int current_year + 2 | _ \<Rightarrow> False)"

text \<open>The floor division \<open>//\<close> of Python on numbers.\<close>

definition floordiv :: "rat \<Rightarrow> rat \<Rightarrow> rat" where
  "floordiv a b = of_int \<lfloor>a / b\<rfloor>"

text \<open>\<open>(release_year // 10) * 10\<close> on one cell; NaN stays NaN.\<close>

definition decade_of :: "year_cell \<Rightarrow> rat option" where
  "decade_of c = (case c of YearNum y \<Rightarrow> Some (floordiv y 10 * 10) | _ \<Rightarrow> None)"

text \<open>
  Writing NaN at the rows of the mask raises TypeError when the mask selects a row and the
  library refuses NaN in the column.
\<close>

definition transform_dates :: "pandas \<Rightarrow> int \<Rightarrow> frame \<Rightarrow> exn + frame" where
  "transform_dates pd current_year df0 =
     (let df = (if ''date_added'' \<in> set (columns df0) then
                  (let df = assign ''date_added''
                              (\<lambda>r. r\<lparr>date_added := DateStr (strip (astype_str_date pd (date_added r)))\<rparr>) df0;
                       df = assign ''date_added''
                              (\<lambda>r. r\<lparr>date_added := replace_nan_date [''nan'', ''None'', []] (date_added r)\<rparr>) df;
                       ctx = map date_added (rows df);
                       df = assign ''date_added''
                              (\<lambda>r. r\<lparr>date_added := to_datetime_cell pd ctx (date_added r)\<rparr>) df;
                       df = assign ''date_added_year''
                              (\<lambda>r. r\<lparr>date_added_year := dt_accessor (dt_year pd) (date_added r)\<rparr>) df;
                       df = assign ''date_added_month''
                              (\<lambda>r. r\<lparr>date_added_month := dt_accessor (dt_month pd) (date_added r)\<rparr>) df;
                       df = assign ''date_added_day_of_week''
                              (\<lambda>r. r\<lparr>date_added_day_of_week := dt_accessor (dt_day_name pd) (date_added r)\<rparr>) df
                   in df)
                else df0)
      in if ''release_year'' \<in> set (columns df) then
           (let df = assign ''release_year''
                       (\<lambda>r. r\<lparr>release_year := to_numeric_cell pd (release_year r)\<rparr>) df
            in if list_ex (\<lambda>r. unrealistic_year current_year (release_year r)) (rows df)
                  \<and> setitem_nan_raises pd (map release_year (rows df)) then Inl TypeError
               else
                 (let df = assign ''release_year''
                             (\<lambda>r. if unrealistic_year current_year (release_year r)
                                  then r\<lparr>release_year := YearNaN\<rparr> else r) df;
                      df = assign ''decade'' (\<lambda>r. r\<lparr>decade := decade_of (release_year r)\<rparr>) df
                  in Inr df))
         else Inr df)"

subsection \<open>Step 3: text columns\<close>

definition text_columns :: "string list" where
  "text_columns =
     [''title'', ''director'', ''cast'', ''country'', ''rating'', ''listed_in'', ''description'']"

text \<open>
  The body of the loop over \<open>text_columns\<close>, for one column. \<open>.str.strip()\<close> is the only
  use of \<open>.str\<close> here that follows a \<open>replace\<close>.
\<close>

definition clean_text_column :: "pandas \<Rightarrow> string \<Rightarrow> frame \<Rightarrow> exn + frame" where
  "clean_text_column pd col df0 =
     (if col \<in> set (columns df0) then
        (let df = assign col (\<lambda>r. set_text col (Some (astype_str (get_text col r))) r) df0;
             df = assign col (\<lambda>r. set_text col (replace_nan [''nan'', ''None''] (get_text col r)) r) df
         in if str_accessor_raises pd (map (get_text col) (rows df)) then Inl AttributeError
            else
              (let df = assign col (\<lambda>r. set_text col (map_option strip (get_text col r)) r) df;
                   df = assign col (\<lambda>r. set_text col (replace_nan [[]] (get_text col r)) r) df
               in Inr df))
      else Inr df0)"

definition clean_text_columns :: "pandas \<Rightarrow> frame \<Rightarrow> exn + frame" where
  "clean_text_columns pd df0 =
     (case fold_exn (clean_text_column pd) text_columns df0 of
        Inl e \<Rightarrow> Inl e
      | Inr df \<Rightarrow>
          if ''duration'' \<in> set (columns df) then
            (let df = assign ''duration''
                        (\<lambda>r. r\<lparr>duration := Some (strip (astype_str (duration r)))\<rparr>) df;
                 df = assign ''duration''
                        (\<lambda>r. r\<lparr>duration := replace_nan [''nan'', ''None'', []] (duration r)\<rparr>) df
             in Inr df)
          else Inr df)"

subsection \<open>Step 4: feature engineering\<close>

definition list_columns :: "string list" where
  "list_columns = [''cast'', ''director'', ''country'', ''listed_in'']"

text \<open>The body of the loop over \<open>list_columns\<close>, for one column.\<close>

definition count_column :: "pandas \<Rightarrow> string \<Rightarrow> frame \<Rightarrow> exn + frame" where
  "count_column pd col df0 =
     (if col \<in> set (columns df0) then
        (if str_accessor_raises pd (map (get_text col) (rows df0)) then Inl AttributeError
         else
           (let df = assign (col @ ''_count'')
                       (\<lambda>r. set_count col (map_option (\<lambda>s. count_comma s + 1) (get_text col r)) r) df0;
                df = assign (col @ ''_count'')
                       (\<lambda>r. if get_text col r = None then set_count col (Some 0) r else r) df
            in Inr df))
      else Inr df0)"

text \<open>The fixed table of \<open>df['rating'].map({...})\<close>.\<close>

definition rating_map :: "(string \<times> string) list" where
  "rating_map =
     [(''G'', ''Kids''), (''TV-Y'', ''Kids''), (''TV-Y7'', ''Kids''), (''TV-Y7-FV'', ''Kids''),
      (''PG'', ''Family''), (''TV-G'', ''Family''), (''TV-PG'', ''Family''),
      (''PG-13'', ''Teen''), (''TV-14'', ''Teen''),
      (''R'', ''Adult''), (''TV-MA'', ''Adult''), (''NC-17'', ''Adult'')]"

definition is_YearStr :: "year_cell \<Rightarrow> bool" where
  "is_YearStr c = (case c of YearStr _ \<Rightarrow> True | _ \<Rightarrow> False)"

text \<open>\<open>date_added_year - release_year\<close> on one row; NaN when either is missing.\<close>

definition content_age :: "int option \<Rightarrow> year_cell \<Rightarrow> rat option" where
  "content_age y c =
     (case (y, c) of (Some a, YearNum b) \<Rightarrow> Some (of_int a - b) | _ \<Rightarrow> None)"

text \<open>The duration features, lines 155 to 164.\<close>

definition duration_features :: "pandas \<Rightarrow> frame \<Rightarrow> exn + frame" where
  "duration_features pd df0 =
     (if ''duration'' \<in> set (columns df0) then
        (if str_accessor_raises pd (map duration (rows df0)) then Inl AttributeError
         else
           (let df = assign ''duration_value''
                       (\<lambda>r. r\<lparr>duration_value := Option.bind (duration r) extract_digits\<rparr>) df0;
                df = assign ''duration_unit''
                       (\<lambda>r. r\<lparr>duration_unit := Option.bind (duration r) extract_unit\<rparr>) df;
                df = assign ''is_movie''
                       (\<lambda>r. r\<lparr>is_movie := (duration_unit r = Some ''min'')\<rparr>) df;
                df = assign ''is_tv_show''
                       (\<lambda>r. r\<lparr>is_tv_show := (duration_unit r \<in> {Some ''Season'', Some ''Seasons''})\<rparr>) df
            in Inr df))
      else Inr df0)"

text \<open>
  The content age, lines 175 to 177. Reading \<open>date_added_year\<close> raises KeyError when the
  column does not exist. The subtraction raises TypeError when a row holds a year of
  addition and a release year that is still a string; a row whose year of addition is
  missing is left out of the subtraction.
\<close>

definition content_age_feature :: "frame \<Rightarrow> exn + frame" where
  "content_age_feature df =
     (if ''release_year'' \<in> set (columns df) \<and> ''date_added'' \<in> set (columns df) then
        (if ''date_added_year'' \<notin> set (columns df) then Inl KeyError
         else if list_ex (\<lambda>r. date_added_year r \<noteq> None \<and> is_YearStr (release_year r)) (rows df)
           then Inl TypeError
         else Inr (assign ''content_age_when_added''
                     (\<lambda>r. r\<lparr>content_age_when_added :=
                              content_age (date_added_year r) (release_year r)\<rparr>) df))
      else Inr df)"

text \<open>The text length features, lines 180 to 182.\<close>

definition description_features :: "pandas \<Rightarrow> frame \<Rightarrow> exn + frame" where
  "description_features pd df0 =
     (if ''description'' \<in> set (columns df0) then
        (if str_accessor_raises pd (map description (rows df0)) then Inl AttributeError
         else
           (let df = assign ''description_length''
                       (\<lambda>r. r\<lparr>description_length := map_option length (description r)\<rparr>) df0;
                df = assign ''description_word_count''
                       (\<lambda>r. r\<lparr>description_word_count :=
                                map_option (\<lambda>s. length (split_whitespace s)) (description r)\<rparr>) df
            in Inr df))
      else Inr df0)"

text \<open>The rating categories, lines 185 to 192.\<close>

definition rating_features :: "frame \<Rightarrow> frame" where
  "rating_features df0 =
     (if ''rating'' \<in> set (columns df0) then
        (let df = assign ''rating_category''
                    (\<lambda>r. r\<lparr>rating_category := Option.bind (rating r) (map_of rating_map)\<rparr>) df0;
             df = assign ''rating_category''
                    (\<lambda>r. r\<lparr>rating_category :=
                             (case rating_category r of None \<Rightarrow> Some ''Other'' | Some c \<Rightarrow> Some c)\<rparr>) df
         in df)
      else df0)"

definition engineer_features :: "pandas \<Rightarrow> frame \<Rightarrow> exn + frame" where
  "engineer_features pd df0 =
     (case duration_features pd df0 of
        Inl e \<Rightarrow> Inl e
      | Inr df1 \<Rightarrow>
     (case fold_exn (count_column pd) list_columns df1 of
        Inl e \<Rightarrow> Inl e
      | Inr df2 \<Rightarrow>
     (case content_age_feature df2 of
        Inl e \<Rightarrow> Inl e
      | Inr df3 \<Rightarrow>
     (case description_features pd df3 of
        Inl e \<Rightarrow> Inl e
      | Inr df4 \<Rightarrow> Inr (rating_features df4)))))"

subsection \<open>Step 5: categorical data\<close>

definition categorical_columns :: "string list" where
  "categorical_columns =
     [''type'', ''rating'', ''rating_category'', ''duration_unit'', ''date_added_day_of_week'']"

text \<open>\<open>astype('category')\<close> changes the storage of a column, not its values.\<close>

definition astype_category :: "string \<Rightarrow> frame \<Rightarrow> frame" where
  "astype_category col df = (if col \<in> set (columns df) then assign col (\<lambda>r. r) df else df)"

text \<open>\<open>.str.split(',').str[0].str.strip()\<close> on one cell.\<close>

definition primary_token :: "string option \<Rightarrow> string option" where
  "primary_token v = map_option strip (Option.bind (map_option split_comma v) str_get0)"

text \<open>The country features, lines 211 to 213, and the genre features, lines 216 to 219.\<close>

definition country_features :: "pandas \<Rightarrow> frame \<Rightarrow> exn + frame" where
  "country_features pd df0 =
     (if ''country'' \<in> set (columns df0) then
        (if str_accessor_raises pd (map country (rows df0)) then Inl AttributeError
         else
           (let df = assign ''primary_country''
                       (\<lambda>r. r\<lparr>primary_country := primary_token (country r)\<rparr>) df0;
                df = assign ''is_international''
                       (\<lambda>r. r\<lparr>is_international := contains_comma (country r)\<rparr>) df
            in Inr df))
      else Inr df0)"

definition genre_features :: "pandas \<Rightarrow> frame \<Rightarrow> exn + frame" where
  "genre_features pd df0 =
     (if ''listed_in'' \<in> set (columns df0) then
        (if str_accessor_raises pd (map listed_in (rows df0)) then Inl AttributeError
         else
           (let df = assign ''primary_genre''
                       (\<lambda>r. r\<lparr>primary_genre := primary_token (listed_in r)\<rparr>) df0;
                df = assign ''genre_diversity''
                       (\<lambda>r. r\<lparr>genre_diversity := map_option (\<lambda>s. count_comma s + 1) (listed_in r)\<rparr>) df;
                df = assign ''genre_diversity''
                       (\<lambda>r. if listed_in r = None then r\<lparr>genre_diversity := Some 0\<rparr> else r) df
            in Inr df))
      else Inr df0)"

definition process_categorical_data :: "pandas \<Rightarrow> frame \<Rightarrow> exn + frame" where
  "process_categorical_data pd df0 =
     (let df = fold astype_category categorical_columns df0
      in case country_features pd df of
           Inl e \<Rightarrow> Inl e
         | Inr df \<Rightarrow> genre_features pd df)"

subsection \<open>Step 6: final cleanup\<close>

text \<open>
  Sort keys with \<open>na_position='last'\<close>: a missing cell is greater than every present one.
  Timestamps compare as numbers and strings by their characters' codes; where a column
  holds both, pandas orders every timestamp before every string.
\<close>

definition date_key :: "date_cell \<Rightarrow> nat \<times> int \<times> string" where
  "date_key c =
     (case c of
        Timestamp t \<Rightarrow> (0, t, [])
      | DateStr s \<Rightarrow> (1, 0, s)
      | DateNaN \<Rightarrow> (2, 0, [])
      | NaT \<Rightarrow> (2, 0, []))"

definition text_key :: "string option \<Rightarrow> bool \<times> string" where
  "text_key v = (case v of None \<Rightarrow> (True, []) | Some s \<Rightarrow> (False, s))"

text \<open>The key of a row when the frame is sorted on \<open>date_added\<close>, then \<open>show_id\<close>.\<close>

definition lexsort_key :: "row \<Rightarrow> (nat \<times> int \<times> string) \<times> (bool \<times> string)" where
  "lexsort_key r = (date_key (date_added r), text_key (show_id r))"

definition is_DateStr :: "date_cell \<Rightarrow> bool" where
  "is_DateStr c = (case c of DateStr _ \<Rightarrow> True | _ \<Rightarrow> False)"

definition is_Timestamp :: "date_cell \<Rightarrow> bool" where
  "is_Timestamp c = (case c of Timestamp _ \<Rightarrow> True | _ \<Rightarrow> False)"

text \<open>
  \<open>sort_values(sort_columns, na_position='last')\<close>. On two columns pandas sorts the codes
  of the keys with a stable sort. On one column it sorts the values themselves with an
  unstable quicksort: rows with one key come in the order the library gives them, and
  comparing a string with a timestamp raises TypeError.
\<close>

definition sort_values :: "pandas \<Rightarrow> string list \<Rightarrow> frame \<Rightarrow> exn + frame" where
  "sort_values pd sort_columns df =
     (if sort_columns = [''date_added'', ''show_id''] then
        Inr (df\<lparr>rows := sort_key lexsort_key (rows df)\<rparr>)
      else if sort_columns = [''date_added''] then
        (if list_ex (\<lambda>r. is_DateStr (date_added r)) (rows df)
            \<and> list_ex (\<lambda>r. is_Timestamp (date_added r)) (rows df) then Inl TypeError
         else Inr (df\<lparr>rows := sort_key (\<lambda>r. (date_key (date_added r), quicksort_rank pd (rows df) r))
                               (rows df)\<rparr>))
      else if sort_columns = [''show_id''] then
        Inr (df\<lparr>rows := sort_key (\<lambda>r. (text_key (show_id r), quicksort_rank pd (rows df) r))
                         (rows df)\<rparr>)
      else Inr df)"

definition final_cleanup :: "pandas \<Rightarrow> frame \<Rightarrow> exn + frame" where
  "final_cleanup pd df0 =
     (let df = drop_duplicates df0;
          sort_columns = [];
          sort_columns = (if ''date_added'' \<in> set (columns df) then sort_columns @ [''date_added'']
                          else sort_columns);
          sort_columns = (if ''show_id'' \<in> set (columns df) then sort_columns @ [''show_id'']
                          else sort_columns)
      in if sort_columns \<noteq> [] then sort_values pd sort_columns df else Inr df)"

subsection \<open>The pipeline of the six steps\<close>

definition transform_netflix_data :: "pandas \<Rightarrow> int \<Rightarrow> frame option \<Rightarrow> exn + frame option" where
  "transform_netflix_data pd current_year data =
     (case data of
        None \<Rightarrow> Inr None
      | Some df \<Rightarrow>
          if empty df then Inr None
          else
            (case clean_basic_data df of
               Inl e \<Rightarrow> Inl e
             | Inr df1 \<Rightarrow>
            (case transform_dates pd current_year df1 of
               Inl e \<Rightarrow> Inl e
             | Inr df2 \<Rightarrow>
            (case clean_text_columns pd df2 of
               Inl e \<Rightarrow> Inl e
             | Inr df3 \<Rightarrow>
            (case engineer_features pd df3 of
               Inl e \<Rightarrow> Inl e
             | Inr df4 \<Rightarrow>
            (case process_categorical_data pd df4 of
               Inl e \<Rightarrow> Inl e
             | Inr df5 \<Rightarrow>
            (case final_cleanup pd df5 of
               Inl e \<Rightarrow> Inl e
             | Inr df6 \<Rightarrow> Inr (Some df6))))))))"

section \<open>Loader and Reporter, as the orchestrator sees them\<close>

text \<open>
  What lies outside the process during one run: the source file, the clock (the year read
  by the Transformer, the readings of \<open>datetime.now()\<close> at the start and at the end), whether
  the database calls of the load raise, whether building or saving the charts raises,
  whether building or writing the analysis report raises, and whether writing the run
  report raises.
\<close>

datatype db_outcome = Loaded | SQLAlchemyError | UnexpectedError

record world =
  source_file :: csv_file
  current_year :: int
  now_start :: int
  now_end :: int
  database :: db_outcome
  charts_raise :: bool
  analysis_raises :: bool
  report_file_raises :: bool

text \<open>\<open>load_to_postgres\<close> catches every exception of the database and returns a bool.\<close>

definition load_to_postgres :: "world \<Rightarrow> frame option \<Rightarrow> bool" where
  "load_to_postgres w data =
     (case data of
        None \<Rightarrow> False
      | Some df \<Rightarrow>
          if empty df then False
          else (case database w of
                  Loaded \<Rightarrow> True
                | SQLAlchemyError \<Rightarrow> False
                | UnexpectedError \<Rightarrow> False))"

text \<open>
  \<open>create_netflix_dashboard\<close> and \<open>generate_analysis_report\<close> run inside their own
  \<open>try\<close>: an exception is logged and the result is \<open>None\<close>, otherwise the path written.
\<close>

definition create_netflix_dashboard :: "world \<Rightarrow> frame option \<Rightarrow> string option" where
  "create_netflix_dashboard w data = (if charts_raise w then None else Some ''output'')"

definition generate_analysis_report :: "world \<Rightarrow> frame option \<Rightarrow> string option" where
  "generate_analysis_report w data =
     (if analysis_raises w then None else Some ''output/netflix_analysis_report.md'')"

section \<open>Orchestrator (pipeline.py)\<close>

record run_report =
  start_time :: int
  end_time :: int
  duration_seconds :: int
  raw_data_rows :: nat
  transformed_data_rows :: nat

record pipeline =
  table_name :: string
  pipeline_start_time :: "int option"
  pipeline_end_time :: "int option"
  raw_data :: "frame option"
  transformed_data :: "frame option"
  pipeline_report :: "run_report option"

text \<open>\<open>__init__\<close>.\<close>

definition new_pipeline :: "string \<Rightarrow> pipeline" where
  "new_pipeline name =
     \<lparr>table_name = name, pipeline_start_time = None, pipeline_end_time = None,
      raw_data = None, transformed_data = None, pipeline_report = None\<rparr>"

text \<open>
  A method returns its value and the object as it leaves it, or raises. The exceptions of
  the orchestrator's own code are the TypeError of arithmetic on \<open>None\<close> and the
  ZeroDivisionError of a division by zero.
\<close>

datatype run_exn = Raised exn | NoneArithmetic | ZeroDivisionError

definition extract_data_step :: "world \<Rightarrow> pipeline \<Rightarrow> bool \<times> pipeline" where
  "extract_data_step w self0 =
     (let self = self0\<lparr>raw_data := extract_netflix_data (source_file w)\<rparr>
      in if raw_data self = None then (False, self) else (True, self))"

definition transform_data_step :: "pandas \<Rightarrow> world \<Rightarrow> pipeline \<Rightarrow> run_exn + bool \<times> pipeline" where
  "transform_data_step pd w self0 =
     (case transform_netflix_data pd (current_year w) (raw_data self0) of
        Inl e \<Rightarrow> Inl (Raised e)
      | Inr t \<Rightarrow>
          (let self = self0\<lparr>transformed_data := t\<rparr>
           in case transformed_data self of
                None \<Rightarrow> Inr (False, self)
              | Some out \<Rightarrow>
                  (case raw_data self of
                     None \<Rightarrow> Inl NoneArithmetic
                   | Some raw \<Rightarrow>
                       if length (rows raw) = 0 then Inl ZeroDivisionError
                       else Inr (True, self))))"

definition load_data_step :: "world \<Rightarrow> pipeline \<Rightarrow> bool \<times> pipeline" where
  "load_data_step w self =
     (let success = load_to_postgres w (transformed_data self)
      in if \<not> success then (False, self) else (True, self))"

text \<open>
  \<open>_generate_reports\<close>: a result of \<open>None\<close> from either call is skipped; the method
  returns False only from its \<open>except\<close> branch, and neither call raises.
\<close>

definition generate_reports_step :: "world \<Rightarrow> pipeline \<Rightarrow> bool \<times> pipeline" where
  "generate_reports_step w self =
     (let dashboard_path = create_netflix_dashboard w (transformed_data self);
          report_path = generate_analysis_report w (transformed_data self)
      in (True, self))"

text \<open>
  \<open>_create_pipeline_report\<close> starts with
  \<open>duration = self.pipeline_end_time - self.pipeline_start_time\<close>, which raises TypeError
  while either time is \<open>None\<close>. A failure to write the report file is caught and logged.
\<close>

definition create_pipeline_report :: "world \<Rightarrow> pipeline \<Rightarrow> run_exn + pipeline" where
  "create_pipeline_report w self =
     (case (pipeline_end_time self, pipeline_start_time self) of
        (Some e, Some s) \<Rightarrow>
          Inr (self\<lparr>pipeline_report :=
                 Some \<lparr>start_time = s, end_time = e, duration_seconds = e - s,
                       raw_data_rows = (case raw_data self of None \<Rightarrow> 0 | Some df \<Rightarrow> length (rows df)),
                       transformed_data_rows =
                         (case transformed_data self of None \<Rightarrow> 0 | Some df \<Rightarrow> length (rows df))\<rparr>\<rparr>)
      | _ \<Rightarrow> Inl NoneArithmetic)"

text \<open>
  \<open>run_full_pipeline\<close>: the body of the \<open>try\<close>, then the method itself, whose
  \<open>except Exception\<close> turns every exception into the result False.
\<close>

definition run_full_pipeline_body :: "pandas \<Rightarrow> world \<Rightarrow> pipeline \<Rightarrow> run_exn + bool \<times> pipeline" where
  "run_full_pipeline_body pd w self0 =
     (case extract_data_step w self0 of
        (False, self) \<Rightarrow> Inr (False, self)
      | (True, self) \<Rightarrow>
     (case transform_data_step pd w self of
        Inl e \<Rightarrow> Inl e
      | Inr (False, self) \<Rightarrow> Inr (False, self)
      | Inr (True, self) \<Rightarrow>
     (case load_data_step w self of
        (False, self) \<Rightarrow> Inr (False, self)
      | (True, self) \<Rightarrow>
     (case generate_reports_step w self of
        (False, self) \<Rightarrow> Inr (False, self)
      | (True, self) \<Rightarrow>
     (case create_pipeline_report w self of
        Inl e \<Rightarrow> Inl e
      | Inr self \<Rightarrow> Inr (True, self\<lparr>pipeline_end_time := Some (now_end w)\<rparr>))))))"

definition run_full_pipeline :: "pandas \<Rightarrow> world \<Rightarrow> pipeline \<Rightarrow> bool" where
  "run_full_pipeline pd w self0 =
     (let self = self0\<lparr>pipeline_start_time := Some (now_start w)\<rparr>
      in case run_full_pipeline_body pd w self of
           Inl e \<Rightarrow> False
         | Inr (result, self) \<Rightarrow> result)"

section \<open>The passes, row by row\<close>

text \<open>
  What the passes of the Transformer do to one row when the frame holds the required
  columns and no pass raises; the lemmas below relate these functions to the passes.
\<close>

definition clean_date_cell :: "pandas \<Rightarrow> date_cell \<Rightarrow> date_cell" where
  "clean_date_cell pd c =
     replace_nan_date [''nan'', ''None'', []] (DateStr (strip (astype_str_date pd c)))"

definition normal_year :: "pandas \<Rightarrow> int \<Rightarrow> year_cell \<Rightarrow> year_cell" where
  "normal_year pd cy c =
     (if unrealistic_year cy (to_numeric_cell pd c) then YearNaN
      else to_numeric_cell pd c)"

definition dates_row :: "pandas \<Rightarrow> int \<Rightarrow> date_cell list \<Rightarrow> row \<Rightarrow> row" where
  "dates_row pd cy ctx r =
     (let d = to_datetime_cell pd ctx (clean_date_cell pd (date_added r));
          y = normal_year pd cy (release_year r)
      in r\<lparr>date_added := d,
           date_added_year := dt_accessor (dt_year pd) d,
           date_added_month := dt_accessor (dt_month pd) d,
           date_added_day_of_week := dt_accessor (dt_day_name pd) d,
           release_year := y,
           decade := decade_of y\<rparr>)"

definition clean_text_cell :: "string option \<Rightarrow> string option" where
  "clean_text_cell v =
     replace_nan [[]] (map_option strip (replace_nan [''nan'', ''None''] (Some (astype_str v))))"

definition clean_duration_cell :: "string option \<Rightarrow> string option" where
  "clean_duration_cell v = replace_nan [''nan'', ''None'', []] (Some (strip (astype_str v)))"

definition text_row :: "row \<Rightarrow> row" where
  "text_row r =
     r\<lparr>title := clean_text_cell (title r),
       director := clean_text_cell (director r),
       cast := clean_text_cell (cast r),
       country := clean_text_cell (country r),
       rating := clean_text_cell (rating r),
       listed_in := clean_text_cell (listed_in r),
       description := clean_text_cell (description r),
       duration := clean_duration_cell (duration r)\<rparr>"

definition count_cell :: "string option \<Rightarrow> nat option" where
  "count_cell v = (case v of None \<Rightarrow> Some 0 | Some s \<Rightarrow> Some (count_comma s + 1))"

definition rating_category_of :: "string option \<Rightarrow> string" where
  "rating_category_of v =
     (case Option.bind v (map_of rating_map) of None \<Rightarrow> ''Other'' | Some c \<Rightarrow> c)"

definition features_row :: "row \<Rightarrow> row" where
  "features_row r =
     (let u = Option.bind (duration r) extract_unit
      in r\<lparr>duration_value := Option.bind (duration r) extract_digits,
           duration_unit := u,
           is_movie := (u = Some ''min''),
           is_tv_show := (u = Some ''Season'' \<or> u = Some ''Seasons''),
           cast_count := count_cell (cast r),
           director_count := count_cell (director r),
           country_count := count_cell (country r),
           listed_in_count := count_cell (listed_in r),
           content_age_when_added := content_age (date_added_year r) (release_year r),
           description_length := map_option length (description r),
           description_word_count := map_option (\<lambda>s. length (split_whitespace s)) (description r),
           rating_category := Some (rating_category_of (rating r))\<rparr>)"

definition categorical_row :: "row \<Rightarrow> row" where
  "categorical_row r =
     r\<lparr>primary_country := primary_token (country r),
       is_international := contains_comma (country r),
       primary_genre := primary_token (listed_in r),
       genre_diversity := count_cell (listed_in r)\<rparr>"

definition kept_rows :: "frame \<Rightarrow> row list" where
  "kept_rows df = filter (\<lambda>r. \<not> isna_critical r) (rows (drop_duplicates df))"

definition transform_row :: "pandas \<Rightarrow> int \<Rightarrow> date_cell list \<Rightarrow> row \<Rightarrow> row" where
  "transform_row pd cy ctx r = categorical_row (features_row (text_row (dates_row pd cy ctx r)))"

definition date_context :: "pandas \<Rightarrow> frame \<Rightarrow> date_cell list" where
  "date_context pd df = map (\<lambda>r. clean_date_cell pd (date_added r)) (kept_rows df)"

definition derived_columns :: "string list" where
  "derived_columns =
     [''date_added_year'', ''date_added_month'', ''date_added_day_of_week'', ''decade'',
      ''duration_value'', ''duration_unit'', ''is_movie'', ''is_tv_show'', ''cast_count'',
      ''director_count'', ''country_count'', ''listed_in_count'', ''content_age_when_added'',
      ''description_length'', ''description_word_count'', ''rating_category'',
      ''primary_country'', ''is_international'', ''primary_genre'', ''genre_diversity'']"

section \<open>A sample catalogue\<close>

text \<open>
  Concrete inputs for the worked examples. \<open>sample_pd\<close> interprets the library calls on
  the strings the samples use: two dates, in the catalogue's format and as \<open>astype(str)\<close>
  writes them, and one year written as text. It refuses what some version of pandas
  refuses: \<open>.str\<close> on a column that is entirely NaN, and NaN written into a column of
  whole numbers without a missing entry. An unstable sort leaves equal keys as they
  were. Every text column of the samples holds a value and the years hold a missing
  entry, so that no version refuses them.
\<close>

definition sample_pd :: pandas where
  "sample_pd =
     \<lparr>to_datetime = (\<lambda>ctx. map_of [(''September 25, 2021'', 1632528000000000000),
                                  (''January 1, 2020'', 1577836800000000000),
                                  (''2021-09-25'', 1632528000000000000),
                                  (''2020-01-01'', 1577836800000000000)]),
      to_numeric = map_of [(''1994'', 1994)],
      str_timestamp = (\<lambda>t. if t = 1632528000000000000 then ''2021-09-25''
                          else if t = 1577836800000000000 then ''2020-01-01'' else ''NaT''),
      dt_year = (\<lambda>t. if t = 1632528000000000000 then 2021 else 2020),
      dt_month = (\<lambda>t. if t = 1632528000000000000 then 9 else 1),
      dt_day_name = (\<lambda>t. if t = 1632528000000000000 then ''Saturday'' else ''Wednesday''),
      str_accessor_raises = (\<lambda>cells. cells \<noteq> [] \<and> list_all (\<lambda>c. c = None) cells),
      setitem_nan_raises =
        list_all (\<lambda>c. case c of YearNum y \<Rightarrow> y = of_int \<lfloor>y\<rfloor> | _ \<Rightarrow> False),
      quicksort_rank = (\<lambda>rows r. 0)\<rparr>"

definition blank_row :: row where
  "blank_row =
     \<lparr>show_id = None, type = None, title = None, director = None, cast = None,
      country = None, date_added = DateNaN, release_year = YearNaN, rating = None,
      duration = None, listed_in = None, description = None, other_columns = [],
      date_added_year = None, date_added_month = None, date_added_day_of_week = None,
      decade = None, duration_value = None, duration_unit = None, is_movie = False,
      is_tv_show = False, cast_count = None, director_count = None, country_count = None,
      listed_in_count = None, content_age_when_added = None, description_length = None,
      description_word_count = None, rating_category = None, primary_country = None,
      is_international = False, primary_genre = None, genre_diversity = None\<rparr>"

definition movie_row :: row where
  "movie_row =
     blank_row\<lparr>show_id := Some ''s1'', type := Some ''Movie'', title := Some ''  Heat '',
       director := Some ''Michael Mann'', cast := Some ''Al Pacino, Robert De Niro'',
       country := Some ''France, Germany'', date_added := DateStr '' September 25, 2021'',
       release_year := YearNum 1994, rating := Some ''PG-13'', duration := Some ''90 min'',
       listed_in := Some ''Drama'', description := Some ''a b  c''\<rparr>"

definition series_row :: row where
  "series_row =
     blank_row\<lparr>show_id := Some ''s2'', type := Some ''TV Show'', title := Some ''Dark'',
       date_added := DateStr ''January 1, 2020'', release_year := YearNum 2005,
       rating := Some ''TV-MA'', duration := Some ''3 Seasons''\<rparr>"

definition undated_row :: row where
  "undated_row =
     blank_row\<lparr>show_id := Some ''s0'', type := Some ''Movie'', title := Some ''Lost'',
       rating := Some ''XYZ''\<rparr>"

definition old_row :: row where
  "old_row =
     blank_row\<lparr>show_id := Some ''s4'', type := Some ''Movie'', title := Some ''Old'',
       release_year := YearNum 1800, rating := Some ''G''\<rparr>"

definition blank_title_row :: row where
  "blank_title_row =
     blank_row\<lparr>show_id := Some ''s3'', type := Some ''Movie'', title := Some ''   ''\<rparr>"

definition sample_df :: frame where
  "sample_df =
     \<lparr>columns = colunas_obrigatorias,
      rows = [old_row, undated_row, movie_row, series_row, movie_row]\<rparr>"

definition blank_title_df :: frame where
  "blank_title_df = \<lparr>columns = colunas_obrigatorias, rows = [movie_row, blank_title_row]\<rparr>"

text \<open>
  A file that is not valid UTF-8 and that Latin-1 reads as a table without the column
  \<open>title\<close> (its header holds the byte 0xED).
\<close>

definition latin1_df :: frame where
  "latin1_df = \<lparr>columns = [''show_id'', ''type'', [CHR 0x74, CHR 0xED, CHR 0x74, CHR 0x75, CHR 0x6C, CHR 0x6F]],
                 rows = [blank_row\<lparr>show_id := Some ''s1'', type := Some ''Movie'',
                                   other_columns := [Some ''Heat'']\<rparr>]\<rparr>"

definition latin1_file :: csv_file where
  "latin1_file = \<lparr>exists = True, read_utf8 = UnicodeDecodeError, read_latin1 = Parsed latin1_df\<rparr>"

definition sample_file :: csv_file where
  "sample_file = \<lparr>exists = True, read_utf8 = Parsed sample_df, read_latin1 = Parsed sample_df\<rparr>"

text \<open>A run in which every stage works and only the charts fail.\<close>

definition charts_fail_world :: world where
  "charts_fail_world =
     \<lparr>source_file = sample_file, current_year = 2026, now_start = 0, now_end = 5,
      database = Loaded, charts_raise = True, analysis_raises = False,
      report_file_raises = False\<rparr>"

text \<open>A run in which nothing fails.\<close>

definition all_fine_world :: world where
  "all_fine_world = charts_fail_world\<lparr>charts_raise := False\<rparr>"

text \<open>What the Transformer makes of the samples.\<close>

definition series_out :: row where
  "series_out =
     \<lparr>show_id = Some ''s2'', type = Some ''TV Show'', title = Some ''Dark'', director = None,
      cast = None, country = None, date_added = Timestamp 1577836800000000000,
      release_year = YearNum 2005, rating = Some ''TV-MA'', duration = Some ''3 Seasons'',
      listed_in = None, description = None, other_columns = [],
      date_added_year = Some 2020, date_added_month = Some 1,
      date_added_day_of_week = Some ''Wednesday'', decade = Some 2000,
      duration_value = Some (Finite 3), duration_unit = Some ''Seasons'', is_movie = False,
      is_tv_show = True, cast_count = Some 0, director_count = Some 0,
      country_count = Some 0, listed_in_count = Some 0, content_age_when_added = Some 15,
      description_length = None, description_word_count = None,
      rating_category = Some ''Adult'', primary_country = None, is_international = False,
      primary_genre = None, genre_diversity = Some 0\<rparr>"

definition movie_out :: row where
  "movie_out =
     \<lparr>show_id = Some ''s1'', type = Some ''Movie'', title = Some ''Heat'',
      director = Some ''Michael Mann'', cast = Some ''Al Pacino, Robert De Niro'',
      country = Some ''France, Germany'',
      date_added = Timestamp 1632528000000000000, release_year = YearNum 1994,
      rating = Some ''PG-13'', duration = Some ''90 min'', listed_in = Some ''Drama'',
      description = Some ''a b  c'', other_columns = [],
      date_added_year = Some 2021, date_added_month = Some 9,
      date_added_day_of_week = Some ''Saturday'', decade = Some 1990,
      duration_value = Some (Finite 90), duration_unit = Some ''min'', is_movie = True,
      is_tv_show = False, cast_count = Some 2, director_count = Some 1,
      country_count = Some 2, listed_in_count = Some 1, content_age_when_added = Some 27,
      description_length = Some 6, description_word_count = Some 3,
      rating_category = Some ''Teen'', primary_country = Some ''France'',
      is_international = True, primary_genre = Some ''Drama'', genre_diversity = Some 1\<rparr>"

definition undated_out :: row where
  "undated_out =
     \<lparr>show_id = Some ''s0'', type = Some ''Movie'', title = Some ''Lost'', director = None,
      cast = None, country = None, date_added = NaT, release_year = YearNaN,
      rating = Some ''XYZ'', duration = None, listed_in = None, description = None,
      other_columns = [], date_added_year = None, date_added_month = None,
      date_added_day_of_week = None, decade = None, duration_value = None,
      duration_unit = None, is_movie = False, is_tv_show = False, cast_count = Some 0,
      director_count = Some 0, country_count = Some 0, listed_in_count = Some 0,
      content_age_when_added = None, description_length = None,
      description_word_count = None, rating_category = Some ''Other'',
      primary_country = None, is_international = False, primary_genre = None,
      genre_diversity = Some 0\<rparr>"

definition old_out :: row where
  "old_out =
     undated_out\<lparr>show_id := Some ''s4'', title := Some ''Old'', rating := Some ''G'',
       rating_category := Some ''Kids''\<rparr>"

definition blank_title_out :: row where
  "blank_title_out =
     undated_out\<lparr>show_id := Some ''s3'', title := None, rating := None\<rparr>"

definition sample_out :: frame where
  "sample_out =
     \<lparr>columns = colunas_obrigatorias @ derived_columns,
      rows = [series_out, movie_out, undated_out, old_out]\<rparr>"

definition blank_title_df_out :: frame where
  "blank_title_df_out =
     \<lparr>columns = colunas_obrigatorias @ derived_columns, rows = [movie_out, blank_title_out]\<rparr>"

definition blank_title_df_out2 :: frame where
  "blank_title_df_out2 = \<lparr>columns = colunas_obrigatorias @ derived_columns, rows = [movie_out]\<rparr>"

section \<open>Extractor: validation on the two encodings\<close>

lemma extract_utf8_validates:
  assumes "read_utf8 f = Parsed df" and "empty df \<or> \<not> validar_dados_netflix df"
  shows "extract_netflix_data f = None"
  using assms by (auto simp: extract_netflix_data_def validar_dados_def)

lemma latin1_df_invalid: "\<not> validar_dados_netflix latin1_df"
  by (simp add: validar_dados_netflix_def latin1_df_def colunas_obrigatorias_def)

text \<open>
  C2. The claim: the extractor returns \<open>None\<close> whenever the parsed table is empty or lacks
  a required column, whichever encoding read it. On the Latin-1 path the table is
  returned without any validation: for \<open>latin1_file\<close>, whose table has no \<open>title\<close>
  column, the extractor returns the table.
\<close>

theorem extract_latin1_skips_validation:
  "extract_netflix_data latin1_file = Some latin1_df"
  by (simp add: extract_netflix_data_def latin1_file_def)

section \<open>Frames and column names\<close>

lemma rows_assign [simp]: "rows (assign c f df) = map f (rows df)"
  by (simp add: assign_def)

lemma columns_assign [simp]: "set (columns (assign c f df)) = insert c (set (columns df))"
  by (auto simp: assign_def)

lemma get_text_names [simp]:
  "get_text ''title'' r = title r" "get_text ''director'' r = director r"
  "get_text ''cast'' r = cast r" "get_text ''country'' r = country r"
  "get_text ''rating'' r = rating r" "get_text ''listed_in'' r = listed_in r"
  "get_text ''description'' r = description r"
  by (simp_all add: get_text_def)

lemma set_text_names [simp]:
  "set_text ''title'' v r = r\<lparr>title := v\<rparr>" "set_text ''director'' v r = r\<lparr>director := v\<rparr>"
  "set_text ''cast'' v r = r\<lparr>cast := v\<rparr>" "set_text ''country'' v r = r\<lparr>country := v\<rparr>"
  "set_text ''rating'' v r = r\<lparr>rating := v\<rparr>" "set_text ''listed_in'' v r = r\<lparr>listed_in := v\<rparr>"
  "set_text ''description'' v r = r\<lparr>description := v\<rparr>"
  by (simp_all add: set_text_def)

lemma set_count_names [simp]:
  "set_count ''cast'' n r = r\<lparr>cast_count := n\<rparr>"
  "set_count ''director'' n r = r\<lparr>director_count := n\<rparr>"
  "set_count ''country'' n r = r\<lparr>country_count := n\<rparr>"
  "set_count ''listed_in'' n r = r\<lparr>listed_in_count := n\<rparr>"
  by (simp_all add: set_count_def)

lemma get_text_set_count [simp]: "get_text c (set_count c' v r) = get_text c r"
  by (simp add: get_text_def set_count_def)

lemma set_count_twice [simp]: "set_count c v (set_count c v' r) = set_count c v r"
  by (simp add: set_count_def)

lemma get_text_set_text:
  "col \<in> set text_columns \<Longrightarrow> get_text col (set_text col v r) = v"
  by (auto simp: text_columns_def)

lemma set_text_twice [simp]: "set_text c v (set_text c v' r) = set_text c v r"
  by (simp add: set_text_def)

lemma set_drop_duplicates [simp]: "set (rows (drop_duplicates df)) = set (rows df)"
  by (simp add: drop_duplicates_def)

lemma columns_drop_duplicates [simp]: "columns (drop_duplicates df) = columns df"
  by (simp add: drop_duplicates_def)

lemma distinct_drop_duplicates [simp]: "distinct (rows (drop_duplicates df))"
  by (simp add: drop_duplicates_def)

lemma length_drop_duplicates: "length (rows (drop_duplicates df)) \<le> length (rows df)"
  using length_remdups_leq [of "rev (rows df)"] by (simp add: drop_duplicates_def)

lemma drop_duplicates_distinct: "distinct (rows df) \<Longrightarrow> rows (drop_duplicates df) = rows df"
  by (simp add: drop_duplicates_def distinct_remdups_id)

text \<open>A loop that ends without an exception has mapped every row through every body.\<close>

lemma fold_exn_frame:
  assumes "fold_exn f xs s = Inr s'" and "C \<subseteq> set (columns s)"
    and "\<And>x t t'. x \<in> set xs \<Longrightarrow> C \<subseteq> set (columns t) \<Longrightarrow> f x t = Inr t' \<Longrightarrow>
           C \<subseteq> set (columns t') \<and> rows t' = map (g x) (rows t)"
  shows "C \<subseteq> set (columns s') \<and> rows s' = map (fold g xs) (rows s)"
  using assms
proof (induction xs arbitrary: s)
  case Nil
  then show ?case by simp
next
  case (Cons x xs)
  from Cons.prems(1) obtain t where t: "f x s = Inr t" and rest: "fold_exn f xs t = Inr s'"
    by (auto split: sum.splits)
  from Cons.prems(3) [of x s t] t Cons.prems(2)
  have ct: "C \<subseteq> set (columns t)" and rt: "rows t = map (g x) (rows s)" by auto
  have step: "C \<subseteq> set (columns u') \<and> rows u' = map (g y) (rows u)"
    if "y \<in> set xs" "C \<subseteq> set (columns u)" "f y u = Inr u'" for y u u'
    using Cons.prems(3) [of y u u'] that by simp
  have "C \<subseteq> set (columns s') \<and> rows s' = map (fold g xs) (rows t)"
    using rest ct step by (rule Cons.IH)
  then show ?case by (simp add: rt)
qed

section \<open>The passes on a frame with the required columns\<close>

lemma clean_basic_data_rows:
  assumes "set critical_columns \<subseteq> set (columns df)"
  shows "clean_basic_data df = Inr ((drop_duplicates df)\<lparr>rows := kept_rows df\<rparr>)"
  using assms by (simp add: clean_basic_data_def Let_def kept_rows_def)

lemma transform_dates_rows:
  assumes "transform_dates pd cy df = Inr df'"
    and "''date_added'' \<in> set (columns df)" and "''release_year'' \<in> set (columns df)"
  shows "rows df' =
           map (dates_row pd cy (map (\<lambda>r. clean_date_cell pd (date_added r)) (rows df))) (rows df)"
    and "set (columns df) \<subseteq> set (columns df')"
    and "''date_added_year'' \<in> set (columns df')"
  using assms
  by (auto simp add: transform_dates_def Let_def dates_row_def clean_date_cell_def
      normal_year_def o_def split: if_splits)

lemma clean_text_column_rows:
  assumes "clean_text_column pd col df = Inr df'" and "col \<in> set text_columns"
    and "C \<subseteq> set (columns df)" and "col \<in> C"
  shows "C \<subseteq> set (columns df') \<and>
         rows df' = map (\<lambda>r. set_text col (clean_text_cell (get_text col r)) r) (rows df)"
proof -
  have mem: "col \<in> set (columns df)" using assms(3,4) by auto
  from assms(1) mem have "df' =
      assign col (\<lambda>r. set_text col (replace_nan [[]] (get_text col r)) r)
      (assign col (\<lambda>r. set_text col (map_option strip (get_text col r)) r)
      (assign col (\<lambda>r. set_text col (replace_nan [''nan'', ''None''] (get_text col r)) r)
      (assign col (\<lambda>r. set_text col (Some (astype_str (get_text col r))) r) df)))"
    by (simp add: clean_text_column_def Let_def split: if_splits)
  then show ?thesis
    using assms(3)
    by (auto simp add: o_def get_text_set_text [OF assms(2)] clean_text_cell_def)
qed

lemma fold_clean_text:
  "fold (\<lambda>col r. set_text col (clean_text_cell (get_text col r)) r) text_columns r =
     r\<lparr>title := clean_text_cell (title r),
       director := clean_text_cell (director r),
       cast := clean_text_cell (cast r),
       country := clean_text_cell (country r),
       rating := clean_text_cell (rating r),
       listed_in := clean_text_cell (listed_in r),
       description := clean_text_cell (description r)\<rparr>"
  by (simp add: text_columns_def)

lemma clean_text_columns_rows:
  assumes "clean_text_columns pd df = Inr df'"
    and "set text_columns \<subseteq> C" and "''duration'' \<in> C" and "C \<subseteq> set (columns df)"
  shows "rows df' = map text_row (rows df)" and "C \<subseteq> set (columns df')"
proof -
  from assms(1) obtain d where d: "fold_exn (clean_text_column pd) text_columns df = Inr d"
    by (auto simp: clean_text_columns_def split: sum.splits)
  have step: "C \<subseteq> set (columns t') \<and>
       rows t' = map (\<lambda>r. set_text col (clean_text_cell (get_text col r)) r) (rows t)"
    if "col \<in> set text_columns" "C \<subseteq> set (columns t)" "clean_text_column pd col t = Inr t'"
    for col t t'
    using clean_text_column_rows [OF that(3) that(1) that(2)] that(1) assms(2) by auto
  from fold_exn_frame [OF d assms(4), of "\<lambda>col r. set_text col (clean_text_cell (get_text col r)) r"] step
  have cd: "C \<subseteq> set (columns d)"
    and rd: "rows d = map (fold (\<lambda>col r. set_text col (clean_text_cell (get_text col r)) r) text_columns) (rows df)"
    by blast+
  have dur: "''duration'' \<in> set (columns d)" using cd assms(3) by auto
  from assms(1) d dur have df': "df' =
      assign ''duration'' (\<lambda>r. r\<lparr>duration := replace_nan [''nan'', ''None'', []] (duration r)\<rparr>)
      (assign ''duration'' (\<lambda>r. r\<lparr>duration := Some (strip (astype_str (duration r)))\<rparr>) d)"
    by (simp add: clean_text_columns_def Let_def)
  show "rows df' = map text_row (rows df)"
    by (simp add: df' rd o_def fold_clean_text text_row_def clean_duration_cell_def)
  show "C \<subseteq> set (columns df')"
    using cd by (auto simp: df')
qed

lemma count_column_rows:
  assumes "count_column pd col df = Inr df'" and "C \<subseteq> set (columns df)" and "col \<in> C"
  shows "C \<subseteq> set (columns df') \<and>
         rows df' = map (\<lambda>r. set_count col (count_cell (get_text col r)) r) (rows df)"
proof -
  have mem: "col \<in> set (columns df)" using assms(2,3) by auto
  from assms(1) mem have "df' =
      assign (col @ ''_count'') (\<lambda>r. if get_text col r = None then set_count col (Some 0) r else r)
      (assign (col @ ''_count'')
         (\<lambda>r. set_count col (map_option (\<lambda>s. count_comma s + 1) (get_text col r)) r) df)"
    by (simp add: count_column_def Let_def split: if_splits)
  then show ?thesis
    using assms(2) by (auto simp add: o_def count_cell_def split: option.splits)
qed

lemma fold_count_cells:
  "fold (\<lambda>col r. set_count col (count_cell (get_text col r)) r) list_columns r =
     r\<lparr>cast_count := count_cell (cast r), director_count := count_cell (director r),
       country_count := count_cell (country r), listed_in_count := count_cell (listed_in r)\<rparr>"
  by (simp add: list_columns_def)

lemma duration_features_rows:
  assumes "duration_features pd df = Inr df'" and "C \<subseteq> set (columns df)" and "''duration'' \<in> C"
  shows "C \<subseteq> set (columns df')"
    and "rows df' = map (\<lambda>r.
           (let u = Option.bind (duration r) extract_unit
            in r\<lparr>duration_value := Option.bind (duration r) extract_digits,
                 duration_unit := u,
                 is_movie := (u = Some ''min''),
                 is_tv_show := (u = Some ''Season'' \<or> u = Some ''Seasons'')\<rparr>)) (rows df)"
proof -
  have mem: "''duration'' \<in> set (columns df)" using assms(2,3) by auto
  from assms(1) mem have df': "df' =
      assign ''is_tv_show''
        (\<lambda>r. r\<lparr>is_tv_show := (duration_unit r \<in> {Some ''Season'', Some ''Seasons''})\<rparr>)
      (assign ''is_movie'' (\<lambda>r. r\<lparr>is_movie := (duration_unit r = Some ''min'')\<rparr>)
      (assign ''duration_unit'' (\<lambda>r. r\<lparr>duration_unit := Option.bind (duration r) extract_unit\<rparr>)
      (assign ''duration_value''
        (\<lambda>r. r\<lparr>duration_value := Option.bind (duration r) extract_digits\<rparr>) df)))"
    by (simp add: duration_features_def Let_def split: if_splits)
  show "C \<subseteq> set (columns df')" using assms(2) by (auto simp: df')
  show "rows df' = map (\<lambda>r.
           (let u = Option.bind (duration r) extract_unit
            in r\<lparr>duration_value := Option.bind (duration r) extract_digits,
                 duration_unit := u,
                 is_movie := (u = Some ''min''),
                 is_tv_show := (u = Some ''Season'' \<or> u = Some ''Seasons'')\<rparr>)) (rows df)"
    by (simp add: df' o_def Let_def)
qed

lemma content_age_feature_rows:
  assumes "content_age_feature df = Inr df'" and "C \<subseteq> set (columns df)"
    and "''release_year'' \<in> C" and "''date_added'' \<in> C"
  shows "C \<subseteq> set (columns df')"
    and "rows df' = map (\<lambda>r. r\<lparr>content_age_when_added :=
                                  content_age (date_added_year r) (release_year r)\<rparr>) (rows df)"
proof -
  have mem: "''release_year'' \<in> set (columns df)" "''date_added'' \<in> set (columns df)"
    using assms(2,3,4) by auto
  from assms(1) mem have df': "df' = assign ''content_age_when_added''
      (\<lambda>r. r\<lparr>content_age_when_added := content_age (date_added_year r) (release_year r)\<rparr>) df"
    by (simp add: content_age_feature_def split: if_splits)
  show "C \<subseteq> set (columns df')" using assms(2) by (auto simp: df')
  show "rows df' = map (\<lambda>r. r\<lparr>content_age_when_added :=
                                  content_age (date_added_year r) (release_year r)\<rparr>) (rows df)"
    by (simp add: df')
qed

lemma description_features_rows:
  assumes "description_features pd df = Inr df'" and "C \<subseteq> set (columns df)"
    and "''description'' \<in> C"
  shows "C \<subseteq> set (columns df')"
    and "rows df' = map (\<lambda>r. r\<lparr>description_length := map_option length (description r),
             description_word_count :=
               map_option (\<lambda>s. length (split_whitespace s)) (description r)\<rparr>) (rows df)"
proof -
  have mem: "''description'' \<in> set (columns df)" using assms(2,3) by auto
  from assms(1) mem have df': "df' =
      assign ''description_word_count''
        (\<lambda>r. r\<lparr>description_word_count :=
                 map_option (\<lambda>s. length (split_whitespace s)) (description r)\<rparr>)
      (assign ''description_length''
        (\<lambda>r. r\<lparr>description_length := map_option length (description r)\<rparr>) df)"
    by (simp add: description_features_def Let_def split: if_splits)
  show "C \<subseteq> set (columns df')" using assms(2) by (auto simp: df')
  show "rows df' = map (\<lambda>r. r\<lparr>description_length := map_option length (description r),
             description_word_count :=
               map_option (\<lambda>s. length (split_whitespace s)) (description r)\<rparr>) (rows df)"
    by (simp add: df' o_def)
qed

lemma rating_features_rows:
  assumes "C \<subseteq> set (columns df)" and "''rating'' \<in> C"
  shows "C \<subseteq> set (columns (rating_features df))"
    and "rows (rating_features df) =
           map (\<lambda>r. r\<lparr>rating_category := Some (rating_category_of (rating r))\<rparr>) (rows df)"
proof -
  have mem: "''rating'' \<in> set (columns df)" using assms by auto
  show "C \<subseteq> set (columns (rating_features df))"
    using assms(1) mem by (auto simp: rating_features_def Let_def)
  show "rows (rating_features df) =
           map (\<lambda>r. r\<lparr>rating_category := Some (rating_category_of (rating r))\<rparr>) (rows df)"
    using mem
    by (simp add: rating_features_def Let_def o_def rating_category_of_def split: option.splits)
qed

lemma engineer_features_rows:
  assumes res: "engineer_features pd df = Inr df'" and sub: "C \<subseteq> set (columns df)"
    and need: "{''duration'', ''cast'', ''director'', ''country'', ''listed_in'', ''release_year'',
            ''date_added'', ''description'', ''rating''} \<subseteq> C"
  shows "rows df' = map features_row (rows df)" and "C \<subseteq> set (columns df')"
proof -
  from res obtain d1 d2 d3 d4 where
    s1: "duration_features pd df = Inr d1" and
    s2: "fold_exn (count_column pd) list_columns d1 = Inr d2" and
    s3: "content_age_feature d2 = Inr d3" and
    s4: "description_features pd d3 = Inr d4" and
    s5: "df' = rating_features d4"
    by (auto simp: engineer_features_def split: sum.splits)
  have n: "''duration'' \<in> C" "''release_year'' \<in> C" "''date_added'' \<in> C"
    "''description'' \<in> C" "''rating'' \<in> C" "set list_columns \<subseteq> C"
    using need by (auto simp: list_columns_def)
  note r1 = duration_features_rows [OF s1 sub n(1)]
  have step: "C \<subseteq> set (columns t') \<and>
       rows t' = map (\<lambda>r. set_count col (count_cell (get_text col r)) r) (rows t)"
    if "col \<in> set list_columns" "C \<subseteq> set (columns t)" "count_column pd col t = Inr t'"
    for col t t'
    using count_column_rows [OF that(3) that(2)] that(1) n(6) by auto
  from fold_exn_frame [OF s2 r1(1), of "\<lambda>col r. set_count col (count_cell (get_text col r)) r"] step
  have c2: "C \<subseteq> set (columns d2)"
    and r2: "rows d2 = map (fold (\<lambda>col r. set_count col (count_cell (get_text col r)) r) list_columns) (rows d1)"
    by blast+
  note r3 = content_age_feature_rows [OF s3 c2 n(2) n(3)]
  note r4 = description_features_rows [OF s4 r3(1) n(4)]
  note r5 = rating_features_rows [OF r4(1) n(5)]
  show "C \<subseteq> set (columns df')" unfolding s5 by (rule r5(1))
  show "rows df' = map features_row (rows df)"
    unfolding s5
    by (simp add: r5(2) r4(2) r3(2) r2 r1(2) o_def fold_count_cells features_row_def Let_def)
qed

lemma astype_category_frame [simp]:
  "rows (astype_category c df) = rows df"
  "set (columns (astype_category c df)) = set (columns df)"
  by (auto simp: astype_category_def)

lemma fold_astype_category [simp]:
  "rows (fold astype_category cs df) = rows df"
  "set (columns (fold astype_category cs df)) = set (columns df)"
  by (induction cs arbitrary: df) simp_all

lemma process_categorical_data_rows:
  assumes res: "process_categorical_data pd df = Inr df'" and sub: "C \<subseteq> set (columns df)"
    and need: "''country'' \<in> C" "''listed_in'' \<in> C"
  shows "rows df' = map categorical_row (rows df)" and "C \<subseteq> set (columns df')"
proof -
  define d0 where "d0 = fold astype_category categorical_columns df"
  have c0: "C \<subseteq> set (columns d0)" and r0: "rows d0 = rows df"
    using sub by (simp_all add: d0_def)
  from res obtain d1 where s1: "country_features pd d0 = Inr d1"
    and s2: "genre_features pd d1 = Inr df'"
    by (auto simp: process_categorical_data_def Let_def d0_def split: sum.splits)
  have m0: "''country'' \<in> set (columns d0)" using c0 need by auto
  from s1 m0 have d1: "d1 =
      assign ''is_international'' (\<lambda>r. r\<lparr>is_international := contains_comma (country r)\<rparr>)
      (assign ''primary_country'' (\<lambda>r. r\<lparr>primary_country := primary_token (country r)\<rparr>) d0)"
    by (simp add: country_features_def Let_def split: if_splits)
  have c1: "C \<subseteq> set (columns d1)" using c0 by (auto simp: d1)
  have m1: "''listed_in'' \<in> set (columns d1)" using c1 need by auto
  from s2 m1 have df': "df' =
      assign ''genre_diversity''
        (\<lambda>r. if listed_in r = None then r\<lparr>genre_diversity := Some 0\<rparr> else r)
      (assign ''genre_diversity''
        (\<lambda>r. r\<lparr>genre_diversity := map_option (\<lambda>s. count_comma s + 1) (listed_in r)\<rparr>)
      (assign ''primary_genre'' (\<lambda>r. r\<lparr>primary_genre := primary_token (listed_in r)\<rparr>) d1))"
    by (simp add: genre_features_def Let_def split: if_splits)
  show "C \<subseteq> set (columns df')" using c1 by (auto simp: df')
  show "rows df' = map categorical_row (rows df)"
    by (simp add: df' d1 r0 o_def categorical_row_def count_cell_def split: option.splits)
qed

lemma final_cleanup_rows:
  assumes "''date_added'' \<in> set (columns df)" and "''show_id'' \<in> set (columns df)"
  shows "final_cleanup pd df =
           Inr ((drop_duplicates df)\<lparr>rows := sort_key lexsort_key (rows (drop_duplicates df))\<rparr>)"
  using assms by (simp add: final_cleanup_def Let_def sort_values_def)

lemma transform_rows:
  assumes req: "set colunas_obrigatorias \<subseteq> set (columns df)"
    and res: "transform_netflix_data pd cy (Some df) = Inr (Some out)"
  shows "rows out = sort_key lexsort_key
           (rev (remdups (rev (map (transform_row pd cy (date_context pd df)) (kept_rows df)))))"
    and "set (columns df) \<subseteq> set (columns out)"
    and "\<not> empty df"
proof -
  show ne: "\<not> empty df"
    using res by (auto simp: transform_netflix_data_def)
  define C where "C = set (columns df)"
  have cols: "''show_id'' \<in> C" "''type'' \<in> C" "''title'' \<in> C" "''director'' \<in> C"
    "''cast'' \<in> C" "''country'' \<in> C" "''date_added'' \<in> C" "''release_year'' \<in> C"
    "''rating'' \<in> C" "''duration'' \<in> C" "''listed_in'' \<in> C" "''description'' \<in> C"
    using req by (simp_all add: colunas_obrigatorias_def C_def)
  define df1 where "df1 = (drop_duplicates df)\<lparr>rows := kept_rows df\<rparr>"
  have s1: "clean_basic_data df = Inr df1"
    unfolding df1_def using cols
    by (intro clean_basic_data_rows) (simp add: critical_columns_def C_def)
  have c1: "C \<subseteq> set (columns df1)" and r1: "rows df1 = kept_rows df"
    by (simp_all add: df1_def C_def)
  from res ne s1 obtain df2 df3 df4 df5 where
    s2: "transform_dates pd cy df1 = Inr df2" and
    s3: "clean_text_columns pd df2 = Inr df3" and
    s4: "engineer_features pd df3 = Inr df4" and
    s5: "process_categorical_data pd df4 = Inr df5" and
    s6: "final_cleanup pd df5 = Inr out"
    by (auto simp: transform_netflix_data_def split: sum.splits)
  have m1: "''date_added'' \<in> set (columns df1)" "''release_year'' \<in> set (columns df1)"
    using c1 cols by auto
  note t2 = transform_dates_rows [OF s2 m1]
  have r2: "rows df2 = map (dates_row pd cy (date_context pd df)) (kept_rows df)"
    by (simp add: t2(1) r1 date_context_def)
  have c2: "C \<subseteq> set (columns df2)" using c1 t2(2) by auto
  have tc: "set text_columns \<subseteq> C" using cols by (simp add: text_columns_def)
  note t3 = clean_text_columns_rows [OF s3 tc cols(10) c2]
  have need4: "{''duration'', ''cast'', ''director'', ''country'', ''listed_in'', ''release_year'',
            ''date_added'', ''description'', ''rating''} \<subseteq> C"
    using cols by simp
  note t4 = engineer_features_rows [OF s4 t3(2) need4]
  note t5 = process_categorical_data_rows [OF s5 t4(2) cols(6) cols(11)]
  have r5: "rows df5 = map (transform_row pd cy (date_context pd df)) (kept_rows df)"
    by (simp add: t5(1) t4(1) t3(1) r2 transform_row_def o_def)
  have m5: "''date_added'' \<in> set (columns df5)" "''show_id'' \<in> set (columns df5)"
    using t5(2) cols by auto
  from s6 final_cleanup_rows [OF m5, of pd]
  have out: "out = (drop_duplicates df5)\<lparr>rows := sort_key lexsort_key (rows (drop_duplicates df5))\<rparr>"
    by simp
  show "rows out = sort_key lexsort_key
           (rev (remdups (rev (map (transform_row pd cy (date_context pd df)) (kept_rows df)))))"
    by (simp add: out drop_duplicates_def r5)
  show "set (columns df) \<subseteq> set (columns out)"
    using t5(2) by (simp add: out C_def)
qed

lemma transform_output_row:
  assumes req: "set colunas_obrigatorias \<subseteq> set (columns df)"
    and res: "transform_netflix_data pd cy (Some df) = Inr (Some out)"
    and r: "r \<in> set (rows out)"
  shows "\<exists>r0 \<in> set (rows df). \<not> isna_critical r0 \<and> r = transform_row pd cy (date_context pd df) r0"
proof -
  from r have "r \<in> transform_row pd cy (date_context pd df) ` set (kept_rows df)"
    by (simp add: transform_rows(1) [OF req res])
  then show ?thesis
    by (auto simp: kept_rows_def)
qed

section \<open>The samples, evaluated\<close>

lemma sample_transform:
  "transform_netflix_data sample_pd 2026 (Some sample_df) = Inr (Some sample_out)"
  by code_simp

lemma blank_title_transform:
  "transform_netflix_data sample_pd 2026 (Some blank_title_df) = Inr (Some blank_title_df_out)"
  by code_simp

lemma blank_title_rerun:
  "transform_netflix_data sample_pd 2027 (Some blank_title_df_out) = Inr (Some blank_title_df_out2)"
  by code_simp

lemma sample_df_columns: "set colunas_obrigatorias \<subseteq> set (columns sample_df)"
  by (simp add: sample_df_def)

lemma sample_out_rows:
  "series_out \<in> set (rows sample_out)" "movie_out \<in> set (rows sample_out)"
  "undated_out \<in> set (rows sample_out)" "old_out \<in> set (rows sample_out)"
  by (simp_all add: sample_out_def)

section \<open>Row counts\<close>

lemma distinct_kept_rows: "distinct (kept_rows df)"
  by (simp add: kept_rows_def)

lemma set_kept_rows: "set (kept_rows df) = {r \<in> set (rows df). \<not> isna_critical r}"
  by (auto simp: kept_rows_def)

text \<open>
  C3. Whenever the Transformer returns a table for a table that holds the required
  columns, the output has at most as many rows as the input: the passes drop rows and add
  none. More precisely the output has at most one row for each distinct input row that
  holds an identifier, a title and a type.
\<close>

theorem transform_row_count:
  assumes "set colunas_obrigatorias \<subseteq> set (columns df)"
    and "transform_netflix_data pd cy (Some df) = Inr (Some out)"
  shows "length (rows out) \<le> length (rows df)
       \<and> length (rows out) \<le> card {r \<in> set (rows df). \<not> isna_critical r}"
proof -
  have "length (rows out) \<le> length (kept_rows df)"
    using length_remdups_leq [of "rev (map (transform_row pd cy (date_context pd df)) (kept_rows df))"]
    by (simp add: transform_rows(1) [OF assms])
  moreover have "length (kept_rows df) \<le> length (rows (drop_duplicates df))"
    by (simp add: kept_rows_def)
  moreover have "length (rows (drop_duplicates df)) \<le> length (rows df)"
    by (rule length_drop_duplicates)
  moreover have "length (kept_rows df) = card {r \<in> set (rows df). \<not> isna_critical r}"
    using distinct_card [OF distinct_kept_rows, of df] by (simp add: set_kept_rows)
  ultimately show ?thesis by simp
qed

theorem transform_row_count_witness:
  "set colunas_obrigatorias \<subseteq> set (columns sample_df)
   \<and> transform_netflix_data sample_pd 2026 (Some sample_df) = Inr (Some sample_out)
   \<and> length (rows sample_out) = 4 \<and> length (rows sample_df) = 5
   \<and> length (rows sample_out) \<le> length (rows sample_df)"
proof -
  have "length (rows sample_out) \<le> length (rows sample_df)"
    using transform_row_count [OF sample_df_columns sample_transform] by simp
  moreover have "length (rows sample_out) = 4" "length (rows sample_df) = 5"
    by (simp_all add: sample_out_def sample_df_def)
  ultimately show ?thesis
    using sample_df_columns sample_transform by simp
qed

section \<open>Rating categories\<close>

lemma rating_fields [simp]:
  "rating_category (transform_row pd cy ctx r0) = Some (rating_category_of (rating (transform_row pd cy ctx r0)))"
  by (simp add: transform_row_def categorical_row_def features_row_def Let_def)

lemma distinct_rating_map: "distinct (map fst rating_map)"
  by (simp add: rating_map_def)

text \<open>
  C5. In every row of the Transformer's output the rating category is the fixed lookup of
  the row's rating code with the default: \<open>PG-13\<close> gives \<open>Teen\<close>, \<open>TV-MA\<close> gives
  \<open>Adult\<close>, every code of the table gives its entry, and a code outside the table (such
  as \<open>XYZ\<close>) or a missing rating gives \<open>Other\<close>.
\<close>

theorem rating_category_lookup:
  assumes "set colunas_obrigatorias \<subseteq> set (columns df)"
    and "transform_netflix_data pd cy (Some df) = Inr (Some out)"
    and "r \<in> set (rows out)"
  shows "(rating r = Some ''PG-13'' \<longrightarrow> rating_category r = Some ''Teen'')
       \<and> (rating r = Some ''TV-MA'' \<longrightarrow> rating_category r = Some ''Adult'')
       \<and> (rating r = Some ''XYZ'' \<longrightarrow> rating_category r = Some ''Other'')
       \<and> (rating r = None \<longrightarrow> rating_category r = Some ''Other'')
       \<and> (\<forall>c v. rating r = Some c \<longrightarrow> (c, v) \<in> set rating_map \<longrightarrow> rating_category r = Some v)
       \<and> (\<forall>c. rating r = Some c \<longrightarrow> c \<notin> fst ` set rating_map \<longrightarrow> rating_category r = Some ''Other'')"
proof -
  from transform_output_row [OF assms] obtain r0 where
    r: "r = transform_row pd cy (date_context pd df) r0" by blast
  have cat: "rating_category r = Some (rating_category_of (rating r))"
    unfolding r by (rule rating_fields)
  have a: "rating_category_of (Some ''PG-13'') = ''Teen''"
    by (simp add: rating_category_of_def rating_map_def)
  have b: "rating_category_of (Some ''TV-MA'') = ''Adult''"
    by (simp add: rating_category_of_def rating_map_def)
  have c: "rating_category_of (Some ''XYZ'') = ''Other''"
    by (simp add: rating_category_of_def rating_map_def)
  have d: "rating_category_of None = ''Other''"
    by (simp add: rating_category_of_def)
  have e: "rating_category_of (Some c) = v" if "(c, v) \<in> set rating_map" for c v
    using map_of_is_SomeI [OF distinct_rating_map that] by (simp add: rating_category_of_def)
  have f: "rating_category_of (Some c) = ''Other''" if "c \<notin> fst ` set rating_map" for c
  proof -
    from that have "map_of rating_map c = None" by (simp add: map_of_eq_None_iff)
    then show ?thesis by (simp add: rating_category_of_def)
  qed
  show ?thesis
    using a b c d e f by (simp add: cat)
qed

theorem rating_category_lookup_witness:
  "rating movie_out = Some ''PG-13'' \<and> rating_category movie_out = Some ''Teen''
   \<and> rating series_out = Some ''TV-MA'' \<and> rating_category series_out = Some ''Adult''
   \<and> rating undated_out = Some ''XYZ'' \<and> rating_category undated_out = Some ''Other''"
proof -
  have m: "rating movie_out = Some ''PG-13''" by (simp add: movie_out_def)
  have s: "rating series_out = Some ''TV-MA''" by (simp add: series_out_def)
  have u: "rating undated_out = Some ''XYZ''" by (simp add: undated_out_def)
  from rating_category_lookup [OF sample_df_columns sample_transform sample_out_rows(2)] m
  have "rating_category movie_out = Some ''Teen''" by blast
  moreover from rating_category_lookup [OF sample_df_columns sample_transform sample_out_rows(1)] s
  have "rating_category series_out = Some ''Adult''" by blast
  moreover from rating_category_lookup [OF sample_df_columns sample_transform sample_out_rows(3)] u
  have "rating_category undated_out = Some ''Other''" by blast
  ultimately show ?thesis using m s u by simp
qed

section \<open>Duration: flags, value and unit\<close>

lemma transform_row_duration [simp]:
  "duration (transform_row pd cy ctx r0) = clean_duration_cell (duration r0)"
  "duration_unit (transform_row pd cy ctx r0) = Option.bind (clean_duration_cell (duration r0)) extract_unit"
  "duration_value (transform_row pd cy ctx r0) = Option.bind (clean_duration_cell (duration r0)) extract_digits"
  "is_movie (transform_row pd cy ctx r0) = (duration_unit (transform_row pd cy ctx r0) = Some ''min'')"
  "is_tv_show (transform_row pd cy ctx r0) =
     (duration_unit (transform_row pd cy ctx r0) = Some ''Season''
      \<or> duration_unit (transform_row pd cy ctx r0) = Some ''Seasons'')"
  by (simp_all add: transform_row_def categorical_row_def features_row_def text_row_def
      dates_row_def Let_def)

lemma extract_unit_range:
  "extract_unit s = Some u \<Longrightarrow> u = ''min'' \<or> u = ''Season'' \<or> u = ''Seasons''"
  by (auto simp: extract_unit_def split: if_splits)

text \<open>
  C10. In every row of the Transformer's output the flags \<open>is_movie\<close> and
  \<open>is_tv_show\<close> are never both true: \<open>is_movie\<close> holds exactly when the duration unit
  is \<open>min\<close>, \<open>is_tv_show\<close> exactly when it is \<open>Season\<close> or \<open>Seasons\<close>, and a row
  without a duration unit has both flags false. The unit is missing or one of the three.
\<close>

theorem movie_series_flags_exclusive:
  assumes "set colunas_obrigatorias \<subseteq> set (columns df)"
    and "transform_netflix_data pd cy (Some df) = Inr (Some out)"
    and "r \<in> set (rows out)"
  shows "\<not> (is_movie r \<and> is_tv_show r)
       \<and> (is_movie r \<longleftrightarrow> duration_unit r = Some ''min'')
       \<and> (is_tv_show r \<longleftrightarrow> duration_unit r = Some ''Season'' \<or> duration_unit r = Some ''Seasons'')
       \<and> (duration_unit r = None \<longrightarrow> \<not> is_movie r \<and> \<not> is_tv_show r)
       \<and> (duration_unit r = None \<or> duration_unit r = Some ''min''
            \<or> duration_unit r = Some ''Season'' \<or> duration_unit r = Some ''Seasons'')"
proof -
  from transform_output_row [OF assms] obtain r0 where
    r: "r = transform_row pd cy (date_context pd df) r0" by blast
  have m: "is_movie r \<longleftrightarrow> duration_unit r = Some ''min''"
    unfolding r by (rule transform_row_duration(4))
  have t: "is_tv_show r \<longleftrightarrow> duration_unit r = Some ''Season'' \<or> duration_unit r = Some ''Seasons''"
    unfolding r by (rule transform_row_duration(5))
  have u: "duration_unit r = None \<or> duration_unit r = Some ''min''
            \<or> duration_unit r = Some ''Season'' \<or> duration_unit r = Some ''Seasons''"
  proof (cases "duration_unit r")
    case None
    then show ?thesis by simp
  next
    case (Some u)
    then obtain d where "extract_unit d = Some u"
      unfolding r by (auto simp: bind_eq_Some_conv)
    from extract_unit_range [OF this] Some show ?thesis by auto
  qed
  show ?thesis using m t u by auto
qed

theorem movie_series_flags_exclusive_witness:
  "duration_unit movie_out = Some ''min'' \<and> is_movie movie_out \<and> \<not> is_tv_show movie_out
   \<and> duration_unit series_out = Some ''Seasons'' \<and> is_tv_show series_out \<and> \<not> is_movie series_out
   \<and> duration_unit undated_out = None \<and> \<not> is_movie undated_out \<and> \<not> is_tv_show undated_out"
proof -
  have m: "duration_unit movie_out = Some ''min''" by (simp add: movie_out_def)
  have s: "duration_unit series_out = Some ''Seasons''" by (simp add: series_out_def)
  have u: "duration_unit undated_out = None" by (simp add: undated_out_def)
  from movie_series_flags_exclusive [OF sample_df_columns sample_transform sample_out_rows(2)] m
  have "is_movie movie_out \<and> \<not> is_tv_show movie_out" by simp
  moreover from movie_series_flags_exclusive [OF sample_df_columns sample_transform sample_out_rows(1)] s
  have "is_tv_show series_out \<and> \<not> is_movie series_out" by simp
  moreover from movie_series_flags_exclusive [OF sample_df_columns sample_transform sample_out_rows(3)] u
  have "\<not> is_movie undated_out \<and> \<not> is_tv_show undated_out" by simp
  ultimately show ?thesis using m s u by simp
qed

lemma ends_with_iff: "ends_with tok s \<longleftrightarrow> (\<exists>pre. s = pre @ tok)"
proof
  assume "ends_with tok s"
  then have "s = take (length s - length tok) s @ tok"
    by (metis append_take_drop_id ends_with_def)
  then show "\<exists>pre. s = pre @ tok" ..
next
  assume "\<exists>pre. s = pre @ tok"
  then show "ends_with tok s" by (auto simp: ends_with_def)
qed

lemma strip_last: "strip s \<noteq> [] \<Longrightarrow> \<not> isspace (last (strip s))"
proof -
  assume ne: "strip s \<noteq> []"
  let ?t = "dropWhile isspace (rev (dropWhile isspace s))"
  from ne have t: "?t \<noteq> []" by (simp add: strip_def)
  have "last (strip s) = hd ?t"
    using t by (simp add: strip_def last_rev)
  moreover have "\<not> isspace (hd ?t)"
    using t by (rule hd_dropWhile)
  ultimately show ?thesis by simp
qed

lemma isspace_newline: "isspace (CHR 0x0A)"
  by (simp add: isspace_def)

lemma clean_duration_cell_Some:
  assumes "clean_duration_cell v = Some d"
  shows "d \<noteq> [] \<and> \<not> isspace (last d)"
proof -
  from assms have d: "d = strip (astype_str v)" and ne: "d \<noteq> []"
    by (auto simp: clean_duration_cell_def replace_nan_def split: if_splits)
  from strip_last [of "astype_str v"] d ne show ?thesis by simp
qed

lemma matches_at_dollar_clean:
  assumes "clean_duration_cell v = Some d"
  shows "matches_at_dollar tok d \<longleftrightarrow> ends_with tok d"
proof -
  have "\<not> ends_with (tok @ [CHR 0x0A]) d"
  proof
    assume "ends_with (tok @ [CHR 0x0A]) d"
    then obtain pre where "d = pre @ tok @ [CHR 0x0A]"
      by (auto simp: ends_with_iff)
    then have "last d = CHR 0x0A" by simp
    with clean_duration_cell_Some [OF assms] isspace_newline show False by simp
  qed
  then show ?thesis by (simp add: matches_at_dollar_def)
qed

lemma ends_with_exclusive:
  "\<not> (ends_with ''min'' d \<and> ends_with ''Season'' d)"
  "\<not> (ends_with ''min'' d \<and> ends_with ''Seasons'' d)"
  "\<not> (ends_with ''Season'' d \<and> ends_with ''Seasons'' d)"
proof -
  have a: False if "p @ ''min'' = q @ ''Season''" for p q :: string
  proof -
    from that have "rev (p @ ''min'') = rev (q @ ''Season'')" by (rule arg_cong)
    then show False by simp
  qed
  have b: False if "p @ ''min'' = q @ ''Seasons''" for p q :: string
  proof -
    from that have "rev (p @ ''min'') = rev (q @ ''Seasons'')" by (rule arg_cong)
    then show False by simp
  qed
  have c: False if "p @ ''Season'' = q @ ''Seasons''" for p q :: string
  proof -
    from that have "rev (p @ ''Season'') = rev (q @ ''Seasons'')" by (rule arg_cong)
    then show False by simp
  qed
  show "\<not> (ends_with ''min'' d \<and> ends_with ''Season'' d)"
    unfolding ends_with_iff using a by metis
  show "\<not> (ends_with ''min'' d \<and> ends_with ''Seasons'' d)"
    unfolding ends_with_iff using b by metis
  show "\<not> (ends_with ''Season'' d \<and> ends_with ''Seasons'' d)"
    unfolding ends_with_iff using c by metis
qed

lemma extract_unit_clean:
  assumes "clean_duration_cell v = Some d"
  shows "extract_unit d = Some u \<longleftrightarrow>
           (u = ''min'' \<or> u = ''Season'' \<or> u = ''Seasons'') \<and> ends_with u d"
proof -
  note m = matches_at_dollar_clean [OF assms]
  note x = ends_with_exclusive [of d]
  show ?thesis
  proof (cases "ends_with ''min'' d")
    case True
    with x have "\<not> ends_with ''Season'' d" "\<not> ends_with ''Seasons'' d" by blast+
    with True show ?thesis by (auto simp: extract_unit_def m)
  next
    case nmin: False
    show ?thesis
    proof (cases "ends_with ''Season'' d")
      case True
      with x have "\<not> ends_with ''Seasons'' d" by blast
      with True nmin show ?thesis by (auto simp: extract_unit_def m)
    next
      case False
      with nmin show ?thesis by (auto simp: extract_unit_def m)
    qed
  qed
qed

text \<open>
  C6. In every row of the Transformer's output the duration is parsed into a number and
  a unit: the duration \<open>90 min\<close> gives the value 90, the unit \<open>min\<close> and a true
  \<open>is_movie\<close>; the duration \<open>3 Seasons\<close> gives the value 3, the unit \<open>Seasons\<close> and a
  true \<open>is_tv_show\<close>. The unit is \<open>u\<close> exactly when \<open>u\<close> is one of \<open>min\<close>, \<open>Season\<close>,
  \<open>Seasons\<close> and the duration ends with \<open>u\<close>: the cleaned duration has no newline at its
  end, where \<open>$\<close> would match one character early.
\<close>

theorem duration_parsing:
  assumes "set colunas_obrigatorias \<subseteq> set (columns df)"
    and "transform_netflix_data pd cy (Some df) = Inr (Some out)"
    and "r \<in> set (rows out)"
  shows "(duration r = Some ''90 min'' \<longrightarrow>
            duration_value r = Some (Finite 90) \<and> duration_unit r = Some ''min'' \<and> is_movie r)
       \<and> (duration r = Some ''3 Seasons'' \<longrightarrow>
            duration_value r = Some (Finite 3) \<and> duration_unit r = Some ''Seasons'' \<and> is_tv_show r)
       \<and> (\<forall>u. duration_unit r = Some u \<longleftrightarrow>
            (u = ''min'' \<or> u = ''Season'' \<or> u = ''Seasons'')
            \<and> (\<exists>d. duration r = Some d \<and> ends_with u d))"
proof -
  from transform_output_row [OF assms] obtain r0 where
    r: "r = transform_row pd cy (date_context pd df) r0" by blast
  have dur: "duration r = clean_duration_cell (duration r0)"
    and unit: "duration_unit r = Option.bind (duration r) extract_unit"
    and val: "duration_value r = Option.bind (duration r) extract_digits"
    and mov: "is_movie r \<longleftrightarrow> duration_unit r = Some ''min''"
    and tv: "is_tv_show r \<longleftrightarrow> duration_unit r = Some ''Season'' \<or> duration_unit r = Some ''Seasons''"
    unfolding r by simp_all
  have a: "extract_digits ''90 min'' = Some (Finite 90)" "extract_unit ''90 min'' = Some ''min''"
    by code_simp+
  have b: "extract_digits ''3 Seasons'' = Some (Finite 3)" "extract_unit ''3 Seasons'' = Some ''Seasons''"
    by code_simp+
  have c: "duration_unit r = Some u \<longleftrightarrow>
            (u = ''min'' \<or> u = ''Season'' \<or> u = ''Seasons'')
            \<and> (\<exists>d. duration r = Some d \<and> ends_with u d)" for u
  proof (cases "duration r")
    case None
    then show ?thesis by (simp add: unit)
  next
    case (Some d)
    with dur have "clean_duration_cell (duration r0) = Some d" by simp
    from extract_unit_clean [OF this, of u] Some show ?thesis by (simp add: unit)
  qed
  show ?thesis
    using a b c by (simp add: unit val mov tv)
qed

theorem duration_parsing_witness:
  "duration movie_out = Some ''90 min'' \<and> duration_value movie_out = Some (Finite 90)
   \<and> duration_unit movie_out = Some ''min'' \<and> is_movie movie_out
   \<and> duration series_out = Some ''3 Seasons'' \<and> duration_value series_out = Some (Finite 3)
   \<and> duration_unit series_out = Some ''Seasons'' \<and> is_tv_show series_out"
proof -
  have m: "duration movie_out = Some ''90 min''" by (simp add: movie_out_def)
  have s: "duration series_out = Some ''3 Seasons''" by (simp add: series_out_def)
  from duration_parsing [OF sample_df_columns sample_transform sample_out_rows(2)] m
  have "duration_value movie_out = Some (Finite 90) \<and> duration_unit movie_out = Some ''min''
        \<and> is_movie movie_out" by blast
  moreover from duration_parsing [OF sample_df_columns sample_transform sample_out_rows(1)] s
  have "duration_value series_out = Some (Finite 3) \<and> duration_unit series_out = Some ''Seasons''
        \<and> is_tv_show series_out" by blast
  ultimately show ?thesis using m s by simp
qed

section \<open>Lists: primary token and counts\<close>

lemma split_where_first: "\<exists>ws. split_where p s = takeWhile (\<lambda>c. \<not> p c) s # ws"
  by (induction s) auto

lemma str_get0_split_comma:
  "str_get0 (split_comma s) = Some (takeWhile (\<lambda>c. c \<noteq> CHR '','') s)"
proof -
  from split_where_first [of "\<lambda>c. c = CHR '',''" s] obtain ws where
    "split_comma s = takeWhile (\<lambda>c. c \<noteq> CHR '','') s # ws"
    by (auto simp: split_comma_def)
  then show ?thesis by (simp add: str_get0_def)
qed

lemma primary_token_Some:
  "primary_token (Some s) = Some (strip (takeWhile (\<lambda>c. c \<noteq> CHR '','') s))"
  by (simp add: primary_token_def str_get0_split_comma)

lemma transform_row_lists [simp]:
  "primary_country (transform_row pd cy ctx r0) = primary_token (country (transform_row pd cy ctx r0))"
  "is_international (transform_row pd cy ctx r0) = contains_comma (country (transform_row pd cy ctx r0))"
  "primary_genre (transform_row pd cy ctx r0) = primary_token (listed_in (transform_row pd cy ctx r0))"
  "genre_diversity (transform_row pd cy ctx r0) = count_cell (listed_in (transform_row pd cy ctx r0))"
  "cast_count (transform_row pd cy ctx r0) = count_cell (cast (transform_row pd cy ctx r0))"
  "director_count (transform_row pd cy ctx r0) = count_cell (director (transform_row pd cy ctx r0))"
  "country_count (transform_row pd cy ctx r0) = count_cell (country (transform_row pd cy ctx r0))"
  "listed_in_count (transform_row pd cy ctx r0) = count_cell (listed_in (transform_row pd cy ctx r0))"
  by (simp_all add: transform_row_def categorical_row_def features_row_def Let_def)

text \<open>
  C9. In every row of the Transformer's output the primary country and the primary genre
  are the first comma-separated token of their list, trimmed, and the flags and counts
  follow the commas: the country \<open>France, Germany\<close> gives the primary country \<open>France\<close>
  and a true \<open>is_international\<close>; the genre list \<open>Drama\<close> gives the primary genre
  \<open>Drama\<close> and the genre diversity 1. Every count of a list column, and the genre
  diversity, is the number of commas plus one, and 0 when the list is missing.
\<close>

theorem primary_token_and_counts:
  assumes "set colunas_obrigatorias \<subseteq> set (columns df)"
    and "transform_netflix_data pd cy (Some df) = Inr (Some out)"
    and "r \<in> set (rows out)"
  shows "(country r = Some ''France, Germany'' \<longrightarrow>
            primary_country r = Some ''France'' \<and> is_international r)
       \<and> (listed_in r = Some ''Drama'' \<longrightarrow>
            primary_genre r = Some ''Drama'' \<and> genre_diversity r = Some 1)
       \<and> (\<forall>s. country r = Some s \<longrightarrow>
            primary_country r = Some (strip (takeWhile (\<lambda>c. c \<noteq> CHR '','') s))
            \<and> (is_international r \<longleftrightarrow> CHR '','' \<in> set s)
            \<and> country_count r = Some (count_comma s + 1))
       \<and> (country r = None \<longrightarrow>
            primary_country r = None \<and> \<not> is_international r \<and> country_count r = Some 0)
       \<and> (\<forall>s. listed_in r = Some s \<longrightarrow>
            primary_genre r = Some (strip (takeWhile (\<lambda>c. c \<noteq> CHR '','') s))
            \<and> genre_diversity r = Some (count_comma s + 1)
            \<and> listed_in_count r = Some (count_comma s + 1))
       \<and> (listed_in r = None \<longrightarrow>
            primary_genre r = None \<and> genre_diversity r = Some 0 \<and> listed_in_count r = Some 0)
       \<and> (\<forall>s. cast r = Some s \<longrightarrow> cast_count r = Some (count_comma s + 1))
       \<and> (cast r = None \<longrightarrow> cast_count r = Some 0)
       \<and> (\<forall>s. director r = Some s \<longrightarrow> director_count r = Some (count_comma s + 1))
       \<and> (director r = None \<longrightarrow> director_count r = Some 0)"
proof -
  from transform_output_row [OF assms] obtain r0 where
    r: "r = transform_row pd cy (date_context pd df) r0" by blast
  have f: "primary_country r = primary_token (country r)"
    "is_international r = contains_comma (country r)"
    "primary_genre r = primary_token (listed_in r)"
    "genre_diversity r = count_cell (listed_in r)"
    "cast_count r = count_cell (cast r)"
    "director_count r = count_cell (director r)"
    "country_count r = count_cell (country r)"
    "listed_in_count r = count_cell (listed_in r)"
    unfolding r by (rule transform_row_lists)+
  have a: "strip (takeWhile (\<lambda>c. c \<noteq> CHR '','') ''France, Germany'') = ''France''"
    by code_simp
  have b: "strip (takeWhile (\<lambda>c. c \<noteq> CHR '','') ''Drama'') = ''Drama''"
    "count_comma ''Drama'' = 0"
    by code_simp+
  have n: "primary_token None = None"
    by (simp add: primary_token_def)
  show ?thesis
    using a b
    by (simp add: f primary_token_Some n count_cell_def contains_comma_def)
qed

theorem primary_token_and_counts_witness:
  "country movie_out = Some ''France, Germany'' \<and> primary_country movie_out = Some ''France''
   \<and> is_international movie_out
   \<and> listed_in movie_out = Some ''Drama'' \<and> primary_genre movie_out = Some ''Drama''
   \<and> genre_diversity movie_out = Some 1
   \<and> listed_in series_out = None \<and> genre_diversity series_out = Some 0"
proof -
  have m: "country movie_out = Some ''France, Germany''" "listed_in movie_out = Some ''Drama''"
    by (simp_all add: movie_out_def)
  have s: "listed_in series_out = None" by (simp add: series_out_def)
  from primary_token_and_counts [OF sample_df_columns sample_transform sample_out_rows(2)] m
  have "primary_country movie_out = Some ''France'' \<and> is_international movie_out
        \<and> primary_genre movie_out = Some ''Drama'' \<and> genre_diversity movie_out = Some 1"
    by blast
  moreover from primary_token_and_counts [OF sample_df_columns sample_transform sample_out_rows(1)] s
  have "genre_diversity series_out = Some 0" by blast
  ultimately show ?thesis using m s by simp
qed

section \<open>Release year and decade\<close>

lemma transform_row_year [simp]:
  "release_year (transform_row pd cy ctx r0) = normal_year pd cy (release_year r0)"
  "decade (transform_row pd cy ctx r0) = decade_of (normal_year pd cy (release_year r0))"
  "show_id (transform_row pd cy ctx r0) = show_id r0"
  by (simp_all add: transform_row_def categorical_row_def features_row_def text_row_def
      dates_row_def Let_def)

lemma floordiv_bucket: "floordiv y 10 * 10 \<le> y \<and> y < floordiv y 10 * 10 + 10"
proof -
  have "of_int \<lfloor>y / 10\<rfloor> \<le> y / 10" by (rule of_int_floor_le)
  moreover have "y / 10 < of_int \<lfloor>y / 10\<rfloor> + 1" by linarith
  ultimately show ?thesis by (simp add: floordiv_def field_simps)
qed

lemma floordiv_examples:
  "floordiv 1994 10 * 10 = 1990" "floordiv 2005 10 * 10 = 2000"
  "floordiv (- 5) 10 * 10 = - 10" "floordiv (3989 / 2) 10 * 10 = 1990"
  by code_simp+

lemma normal_year_cases:
  "normal_year pd cy c = YearNaN
   \<or> (\<exists>y. normal_year pd cy c = YearNum y \<and> 1900 \<le> y \<and> y \<le> of_int cy + 2)"
  by (auto simp: normal_year_def unrealistic_year_def to_numeric_cell_def
      split: year_cell.splits option.splits)

lemma normal_year_eq:
  "normal_year pd cy c =
     (case to_numeric_cell pd c of
        YearNum y \<Rightarrow> if y < 1900 \<or> of_int cy + 2 < y then YearNaN else YearNum y
      | _ \<Rightarrow> YearNaN)"
  by (auto simp: normal_year_def unrealistic_year_def to_numeric_cell_def
      split: year_cell.splits option.splits)

text \<open>
  C7. In every row of the Transformer's output the release year is numeric or missing:
  it is the year of an input row coerced to a number, and missing when that number is
  before 1900 or more than two years after the current year. The decade is the year
  floor-divided by 10, times 10, and missing with the year: 1994 gives 1990 and 2005 gives
  2000. Floor division buckets downward, a fractional year and a negative number as well:
  the decade of a year is at most the year and less than ten below it.
\<close>

theorem release_year_and_decade:
  assumes "set colunas_obrigatorias \<subseteq> set (columns df)"
    and "transform_netflix_data pd cy (Some df) = Inr (Some out)"
    and "r \<in> set (rows out)"
  shows "((release_year r = YearNaN \<and> decade r = None)
          \<or> (\<exists>y. release_year r = YearNum y \<and> 1900 \<le> y \<and> y \<le> of_int cy + 2
                 \<and> decade r = Some (of_int \<lfloor>y / 10\<rfloor> * 10)
                 \<and> of_int \<lfloor>y / 10\<rfloor> * 10 \<le> y \<and> y < of_int \<lfloor>y / 10\<rfloor> * 10 + 10))
       \<and> (release_year r = YearNum 1994 \<longrightarrow> decade r = Some 1990)
       \<and> (release_year r = YearNum 2005 \<longrightarrow> decade r = Some 2000)
       \<and> (\<exists>r0 \<in> set (rows df). show_id r = show_id r0 \<and>
             release_year r =
               (case to_numeric_cell pd (release_year r0) of
                  YearNum y \<Rightarrow> if y < 1900 \<or> of_int cy + 2 < y then YearNaN else YearNum y
                | _ \<Rightarrow> YearNaN))
       \<and> (\<forall>y. floordiv y 10 * 10 \<le> y \<and> y < floordiv y 10 * 10 + 10)
       \<and> floordiv (- 5) 10 * 10 = - 10
       \<and> floordiv (3989 / 2) 10 * 10 = 1990"
proof -
  from transform_output_row [OF assms] obtain r0 where
    r0: "r0 \<in> set (rows df)" and r: "r = transform_row pd cy (date_context pd df) r0" by blast
  have year: "release_year r = normal_year pd cy (release_year r0)"
    and dec: "decade r = decade_of (release_year r)"
    and sid: "show_id r = show_id r0"
    unfolding r by simp_all
  have a: "(release_year r = YearNaN \<and> decade r = None)
          \<or> (\<exists>y. release_year r = YearNum y \<and> 1900 \<le> y \<and> y \<le> of_int cy + 2
                 \<and> decade r = Some (of_int \<lfloor>y / 10\<rfloor> * 10)
                 \<and> of_int \<lfloor>y / 10\<rfloor> * 10 \<le> y \<and> y < of_int \<lfloor>y / 10\<rfloor> * 10 + 10)"
    using normal_year_cases [of pd cy "release_year r0"] floordiv_bucket
    by (auto simp: year dec decade_of_def floordiv_def)
  have b: "release_year r = YearNum 1994 \<longrightarrow> decade r = Some 1990"
    "release_year r = YearNum 2005 \<longrightarrow> decade r = Some 2000"
    using floordiv_examples(1,2) by (simp_all add: dec decade_of_def)
  have c: "\<exists>r0 \<in> set (rows df). show_id r = show_id r0 \<and>
             release_year r =
               (case to_numeric_cell pd (release_year r0) of
                  YearNum y \<Rightarrow> if y < 1900 \<or> of_int cy + 2 < y then YearNaN else YearNum y
                | _ \<Rightarrow> YearNaN)"
    using r0 sid year normal_year_eq [of pd cy "release_year r0"] by auto
  show ?thesis
    using a b c floordiv_bucket floordiv_examples(3,4) by blast
qed

theorem release_year_and_decade_witness:
  "release_year movie_out = YearNum 1994 \<and> decade movie_out = Some 1990
   \<and> release_year series_out = YearNum 2005 \<and> decade series_out = Some 2000
   \<and> release_year old_row = YearNum 1800 \<and> release_year old_out = YearNaN
   \<and> decade old_out = None"
proof -
  have m: "release_year movie_out = YearNum 1994" by (simp add: movie_out_def)
  have s: "release_year series_out = YearNum 2005" by (simp add: series_out_def)
  have o: "release_year old_out = YearNaN" "release_year old_row = YearNum 1800"
    by (simp_all add: old_out_def undated_out_def old_row_def blank_row_def)
  from release_year_and_decade [OF sample_df_columns sample_transform sample_out_rows(2)] m
  have "decade movie_out = Some 1990" by blast
  moreover from release_year_and_decade [OF sample_df_columns sample_transform sample_out_rows(1)] s
  have "decade series_out = Some 2000" by blast
  moreover from release_year_and_decade [OF sample_df_columns sample_transform sample_out_rows(4)] o
  have "decade old_out = None" by auto
  ultimately show ?thesis using m s o by simp
qed

end
